theory Spec2Isabelle
  imports Complex_Main "HOL-Library.Multiset"
begin

section \<open>Python values\<close>

text \<open>
  A Python \<open>str\<close> is a sequence of Unicode code points, so it is modelled as a list of
  natural numbers. ASCII literals of the source are written \<open>ascii ''...''\<close>; the Cyrillic
  literals are given by their code points.
\<close>

type_synonym pystr = "nat list"

definition ascii :: "string \<Rightarrow> pystr" where
  "ascii s = map of_char s"

text \<open>The values \<open>json.loads\<close> produces. A \<open>dict\<close> is an association list read with \<open>map_of\<close>.\<close>

datatype json =
    JNull
  | JBool bool
  | JInt int
  | JFloat real
  | JStr pystr
  | JArr "json list"
  | JObj "(pystr \<times> json) list"

text \<open>The exceptions of the dynamically typed operations that the harness does not catch.\<close>

datatype py_error =
    TypeError
  | AttributeError
  | IndexError
  | ValidationError
  | UnboundLocalError
  | ZeroDivisionError

text \<open>Truth value of a Python object, as \<open>if obj:\<close> tests it.\<close>

fun truthy :: "json \<Rightarrow> bool" where
  "truthy JNull = False"
| "truthy (JBool b) = b"
| "truthy (JInt n) = (n \<noteq> 0)"
| "truthy (JFloat r) = (r \<noteq> 0)"
| "truthy (JStr s) = (s \<noteq> [])"
| "truthy (JArr l) = (l \<noteq> [])"
| "truthy (JObj d) = (d \<noteq> [])"

subsection \<open>String operations\<close>

text \<open>\<open>str.isspace\<close>: the 29 code points that \<open>str.strip()\<close> removes.\<close>

definition isspace :: "nat \<Rightarrow> bool" where
  "isspace c \<longleftrightarrow>
     (9 \<le> c \<and> c \<le> 13) \<or> (28 \<le> c \<and> c \<le> 32) \<or> c = 133 \<or> c = 160 \<or> c = 5760 \<or>
     (8192 \<le> c \<and> c \<le> 8202) \<or> c = 8232 \<or> c = 8233 \<or> c = 8239 \<or> c = 8287 \<or> c = 12288"

definition strip :: "pystr \<Rightarrow> pystr" where
  "strip s = rev (dropWhile isspace (rev (dropWhile isspace s)))"

definition startswith :: "pystr \<Rightarrow> pystr \<Rightarrow> bool" where
  "startswith s p \<longleftrightarrow> take (length p) s = p"

text \<open>\<open>s.split(c)\<close> for a one-character separator \<open>c\<close>; the result is never empty.\<close>

fun split_on :: "nat \<Rightarrow> pystr \<Rightarrow> pystr list" where
  "split_on c [] = [[]]"
| "split_on c (x # xs) =
     (if x = c then [] # split_on c xs
      else (case split_on c xs of [] \<Rightarrow> [[x]] | y # ys \<Rightarrow> (x # y) # ys))"

text \<open>\<open>sep.join(parts)\<close>.\<close>

fun str_join :: "pystr \<Rightarrow> pystr list \<Rightarrow> pystr" where
  "str_join sep [] = []"
| "str_join sep [x] = x"
| "str_join sep (x # y # ys) = x @ sep @ str_join sep (y # ys)"

text \<open>\<open>k in s\<close> for two strings: \<open>k\<close> occurs in \<open>s\<close> as a contiguous substring.\<close>

fun contains :: "pystr \<Rightarrow> pystr \<Rightarrow> bool" where
  "contains [] k = (k = [])"
| "contains (x # xs) k = (startswith (x # xs) k \<or> contains xs k)"

text \<open>\<open>str(n)\<close> for an \<open>int\<close>.\<close>

fun str_nat :: "nat \<Rightarrow> pystr" where
  "str_nat n = (if n < 10 then [48 + n] else str_nat (n div 10) @ [48 + n mod 10])"

declare str_nat.simps [simp del]

definition str_int :: "int \<Rightarrow> pystr" where
  "str_int i = (if i < 0 then 45 # str_nat (nat (- i)) else str_nat (nat i))"

text \<open>
  \<open>str.lower\<close> is a function of the Python runtime over all of Unicode; the functions below
  take it as the parameter \<open>lower\<close>. \<open>lower_basic\<close> is its restriction to the two alphabets
  of the keyword table (Basic Latin and Cyrillic), used to evaluate concrete inputs.
\<close>

definition lower_cp :: "nat \<Rightarrow> nat" where
  "lower_cp c =
     (if 65 \<le> c \<and> c \<le> 90 then c + 32
      else if 1040 \<le> c \<and> c \<le> 1071 then c + 32
      else if 1024 \<le> c \<and> c \<le> 1039 then c + 80
      else c)"

definition lower_basic :: "pystr \<Rightarrow> pystr" where
  "lower_basic s = map lower_cp s"

subsection \<open>Membership\<close>

text \<open>
  \<open>k in x\<close> for a string \<open>k\<close> and a decoded value \<open>x\<close>: a key of a dict, an element of a
  list, a substring of a string; any other operand is not iterable.
\<close>

fun str_in :: "pystr \<Rightarrow> json \<Rightarrow> py_error + bool" where
  "str_in k (JObj d) = Inr (map_of d k \<noteq> None)"
| "str_in k (JArr l) = Inr (JStr k \<in> set l)"
| "str_in k (JStr s) = Inr (contains s k)"
| "str_in k JNull = Inl TypeError"
| "str_in k (JBool b) = Inl TypeError"
| "str_in k (JInt n) = Inl TypeError"
| "str_in k (JFloat r) = Inl TypeError"

section \<open>Result classification\<close>

datatype verdict = Success | Error | Skipped

text \<open>
  \<open>error_keywords\<close> of \<open>run_tests_async\<close>: oshibka, isklyuchenie, ne naiden, error,
  exception, not found, vyzvat'isklyuchenie (the Cyrillic ones by code point).
\<close>

definition error_keywords :: "pystr list" where
  "error_keywords =
     [[1086, 1096, 1080, 1073, 1082, 1072],
      [1080, 1089, 1082, 1083, 1102, 1095, 1077, 1085, 1080, 1077],
      [1085, 1077, 32, 1085, 1072, 1081, 1076, 1077, 1085],
      ascii ''error'',
      ascii ''exception'',
      ascii ''not found'',
      [1074, 1099, 1079, 1074, 1072, 1090, 1100,
       1080, 1089, 1082, 1083, 1102, 1095, 1077, 1085, 1080, 1077]]"

text \<open>
  Second test of the chain: \<open>isinstance(x, dict) and "result" in x and
  isinstance(x["result"], str) and any(keyword in x["result"].lower() for keyword in
  error_keywords)\<close>.
\<close>

definition keyword_hit :: "(pystr \<Rightarrow> pystr) \<Rightarrow> json \<Rightarrow> bool" where
  "keyword_hit lower x =
     (case x of
        JObj d \<Rightarrow>
          (case map_of d (ascii ''result'') of
             Some (JStr s) \<Rightarrow> list_ex (\<lambda>k. contains (lower s) k) error_keywords
           | _ \<Rightarrow> False)
      | _ \<Rightarrow> False)"

text \<open>
  Third test: \<open>(isinstance(x, list) and not x) or (isinstance(x, dict) and "result" in x
  and x["result"] == "")\<close>.
\<close>

definition is_empty_result :: "json \<Rightarrow> bool" where
  "is_empty_result x =
     (case x of
        JArr l \<Rightarrow> l = []
      | JObj d \<Rightarrow> map_of d (ascii ''result'') = Some (JStr [])
      | _ \<Rightarrow> False)"

text \<open>
  The \<open>if / elif / elif / else\<close> chain that follows every tool call in
  \<open>run_tests_async\<close>. Its first test, \<open>"error" in x\<close>, raises \<open>TypeError\<close> when the
  payload is a number, a boolean or \<open>None\<close>.
\<close>

definition classify :: "(pystr \<Rightarrow> pystr) \<Rightarrow> json \<Rightarrow> py_error + verdict" where
  "classify lower x =
     (case str_in (ascii ''error'') x of
        Inl e \<Rightarrow> Inl e
      | Inr has_error \<Rightarrow>
          if has_error then Inr Error
          else if keyword_hit lower x then Inr Error
          else if is_empty_result x then Inr Skipped
          else Inr Success)"

section \<open>Statistics\<close>

record method_stats =
  m_total :: int
  m_success :: int
  m_errors :: int
  m_skipped :: int

datatype tool_method =
    List_metadata_objects
  | Get_metadata_structure
  | List_predefined_data
  | Get_predefined_data

fun method_name :: "tool_method \<Rightarrow> pystr" where
  "method_name List_metadata_objects = ascii ''list_metadata_objects''"
| "method_name Get_metadata_structure = ascii ''get_metadata_structure''"
| "method_name List_predefined_data = ascii ''list_predefined_data''"
| "method_name Get_predefined_data = ascii ''get_predefined_data''"

definition methods :: "tool_method list" where
  "methods = [List_metadata_objects, Get_metadata_structure, List_predefined_data,
              Get_predefined_data]"

text \<open>
  \<open>method_stats\<close> is a dict with exactly the four keys of \<open>methods\<close>, read and written
  only under literal keys: a total function on \<open>method\<close>.
\<close>

type_synonym stats = "tool_method \<Rightarrow> method_stats"

definition init_stats :: stats where
  "init_stats = (\<lambda>m. \<lparr>m_total = 0, m_success = 0, m_errors = 0, m_skipped = 0\<rparr>)"

text \<open>
  The counter updates after one classified call of method \<open>m\<close>:
  \<open>method_stats[m]["total"] += 1\<close> and the increment of the branch taken.
\<close>

fun bump :: "verdict \<Rightarrow> method_stats \<Rightarrow> method_stats" where
  "bump Success s = s\<lparr>m_total := m_total s + 1, m_success := m_success s + 1\<rparr>"
| "bump Error s = s\<lparr>m_total := m_total s + 1, m_errors := m_errors s + 1\<rparr>"
| "bump Skipped s = s\<lparr>m_total := m_total s + 1, m_skipped := m_skipped s + 1\<rparr>"

definition record_verdict :: "tool_method \<Rightarrow> stats \<Rightarrow> verdict \<Rightarrow> stats" where
  "record_verdict m st v = st(m := bump v (st m))"

subsection \<open>Summary table\<close>

record summary_row =
  r_label :: pystr
  r_total :: int
  r_success :: int
  r_errors :: int
  r_skipped :: int
  r_rate :: real

text \<open>\<open>a / b\<close> on two ints; the quotient is taken in exact arithmetic.\<close>

definition py_truediv :: "int \<Rightarrow> int \<Rightarrow> py_error + real" where
  "py_truediv a b = (if b = 0 then Inl ZeroDivisionError else Inr (real_of_int a / real_of_int b))"

text \<open>\<open>(success / total * 100) if total > 0 else 0\<close>.\<close>

definition success_rate :: "int \<Rightarrow> int \<Rightarrow> py_error + real" where
  "success_rate s t =
     (if t > 0 then (case py_truediv s t of Inl e \<Rightarrow> Inl e | Inr q \<Rightarrow> Inr (q * 100))
      else Inr 0)"

text \<open>
  The loop \<open>for method in methods\<close> of the summary: one row per method and the running
  sums \<open>total_all, total_success, total_errors, total_skipped\<close>.
\<close>

fun summary_rows ::
  "stats \<Rightarrow> tool_method list \<Rightarrow> int \<times> int \<times> int \<times> int \<Rightarrow>
   py_error + (summary_row list \<times> (int \<times> int \<times> int \<times> int))" where
  "summary_rows st [] acc = Inr ([], acc)"
| "summary_rows st (m # ms) (ta, ts, te, tk) =
     (case success_rate (m_success (st m)) (m_total (st m)) of
        Inl e \<Rightarrow> Inl e
      | Inr rate \<Rightarrow>
          (case summary_rows st ms
                  (ta + m_total (st m), ts + m_success (st m),
                   te + m_errors (st m), tk + m_skipped (st m)) of
             Inl e \<Rightarrow> Inl e
           | Inr (rows, acc) \<Rightarrow>
               Inr (\<lparr>r_label = method_name m, r_total = m_total (st m),
                      r_success = m_success (st m), r_errors = m_errors (st m),
                      r_skipped = m_skipped (st m), r_rate = rate\<rparr> # rows, acc)))"

text \<open>The label of the last row is the bold word Itogo, by code point.\<close>

definition totals_label :: pystr where
  "totals_label = [42, 42, 1048, 1090, 1086, 1075, 1086, 42, 42]"

definition summarize :: "stats \<Rightarrow> py_error + (summary_row list \<times> summary_row)" where
  "summarize st =
     (case summary_rows st methods (0, 0, 0, 0) of
        Inl e \<Rightarrow> Inl e
      | Inr (rows, (ta, ts, te, tk)) \<Rightarrow>
          (case success_rate ts ta of
             Inl e \<Rightarrow> Inl e
           | Inr rate \<Rightarrow>
               Inr (rows, \<lparr>r_label = totals_label, r_total = ta, r_success = ts,
                            r_errors = te, r_skipped = tk, r_rate = rate\<rparr>)))"

section \<open>HTTP boundary\<close>

record http_request =
  req_url :: pystr
  req_headers :: "(pystr \<times> pystr) list"
  req_json :: json

text \<open>
  A response as the client reads it: \<open>raw_content\<close> is \<open>response.content\<close>, the bytes
  received; \<open>body\<close> is \<open>response.text\<close>, those bytes decoded by the HTTP library under
  the charset the response declares.
\<close>

record http_response =
  status_code :: int
  raw_content :: "nat list"
  body :: pystr
  headers :: "(pystr \<times> pystr) list"

text \<open>
  What \<open>await self.client.post(...)\<close> does: it returns a response, or raises some
  subclass of \<open>Exception\<close> (connection refused, timeout, ...) whose \<open>str(e)\<close> is the
  cause. Interrupts, which are not subclasses of \<open>Exception\<close>, are outside the model.
  The remote side is a state \<open>'w\<close> that every request may change.
\<close>

datatype http_outcome = Raised pystr | Responded http_response

type_synonym 'w http_post = "'w \<Rightarrow> http_request \<Rightarrow> http_outcome \<times> 'w"

text \<open>\<open>Response.is_success\<close>, which \<open>raise_for_status()\<close> tests.\<close>

definition is_success :: "int \<Rightarrow> bool" where
  "is_success st \<longleftrightarrow> 200 \<le> st \<and> st \<le> 299"

text \<open>
  \<open>resp.headers.get(name)\<close>: header names compare without case; several values of one
  header are joined with a comma and a space.
\<close>

definition headers_get :: "(pystr \<times> pystr) list \<Rightarrow> pystr \<Rightarrow> pystr option" where
  "headers_get hs name =
     (case filter (\<lambda>(k, v). lower_basic k = lower_basic name) hs of
        [] \<Rightarrow> None
      | kvs \<Rightarrow> Some (str_join (ascii '', '') (map snd kvs)))"

section \<open>The client of \<open>testMCP_grok_plus_2.py\<close>\<close>

record client =
  base_url :: pystr
  auth_token :: "pystr option"
  session_id :: "pystr option"

text \<open>\<open>MCPClient.__init__\<close>.\<close>

definition new_client :: "pystr \<Rightarrow> pystr option \<Rightarrow> client" where
  "new_client url token = \<lparr>base_url = url, auth_token = token, session_id = None\<rparr>"

text \<open>
  The headers added under \<open>if self.auth_token:\<close> and \<open>if self.session_id:\<close>; an
  \<open>Optional[str]\<close> is true when it is a non-empty string.
\<close>

definition auth_header :: "client \<Rightarrow> (pystr \<times> pystr) list" where
  "auth_header c =
     (case auth_token c of
        Some t \<Rightarrow> if t \<noteq> [] then [(ascii ''Authorization'', ascii ''Bearer '' @ t)] else []
      | None \<Rightarrow> [])"

definition session_header :: "client \<Rightarrow> (pystr \<times> pystr) list" where
  "session_header c =
     (case session_id c of
        Some sid \<Rightarrow> if sid \<noteq> [] then [(ascii ''Mcp-Session-Id'', sid)] else []
      | None \<Rightarrow> [])"

definition base_headers :: "(pystr \<times> pystr) list" where
  "base_headers =
     [(ascii ''Content-Type'', ascii ''application/json''),
      (ascii ''Accept'', ascii ''application/json, text/event-stream'')]"

subsection \<open>Response decoding\<close>

text \<open>
  \<open>[line[5:].strip() for line in text.split("\n") if line.startswith("data:")]\<close>
\<close>

definition data_lines :: "pystr \<Rightarrow> pystr list" where
  "data_lines text =
     map (\<lambda>line. strip (drop 5 line))
         (filter (\<lambda>line. startswith line (ascii ''data:'')) (split_on 10 text))"

text \<open>
  The JSON decoders belong to the Python libraries and are parameters. \<open>loads\<close> is
  \<open>json.loads\<close> on a \<open>str\<close>; it reads the text of an event-stream body. \<open>rjson\<close> is
  \<open>Response.json()\<close>; it reads a plain body from the bytes of the response and does not
  look at the declared charset. \<open>Malformed cause\<close> is a \<open>JSONDecodeError\<close> with
  \<open>str(e) = cause\<close>; \<open>Failed cause\<close> is any other exception of the decoder (bytes
  that are not text in a Unicode encoding, a nesting too deep).
\<close>

datatype decode_failure = Malformed pystr | Failed pystr

type_synonym json_decoder = "pystr \<Rightarrow> decode_failure + json"

type_synonym bytes_decoder = "nat list \<Rightarrow> decode_failure + json"

fun failure_text :: "decode_failure \<Rightarrow> pystr" where
  "failure_text (Malformed cause) = cause"
| "failure_text (Failed cause) = cause"

text \<open>
  A decoder given by a finite table of texts and their values, failing on every other
  text; it stands for \<open>json.loads\<close> where a concrete body is evaluated.
  \<open>bytes_table\<close> is the same for \<open>Response.json()\<close>, with the outcome of each entry
  spelled out.
\<close>

definition table_decoder :: "(pystr \<times> json) list \<Rightarrow> json_decoder" where
  "table_decoder tbl s =
     (case map_of tbl s of
        Some v \<Rightarrow> Inr v
      | None \<Rightarrow> Inl (Malformed (ascii ''Expecting value'')))"

definition bytes_table :: "(nat list \<times> (decode_failure + json)) list \<Rightarrow> bytes_decoder" where
  "bytes_table tbl bs =
     (case map_of tbl bs of
        Some outcome \<Rightarrow> outcome
      | None \<Rightarrow> Inl (Malformed (ascii ''Expecting value'')))"

text \<open>What the \<open>try\<close> block of \<open>_make_request\<close> can raise.\<close>

datatype raised =
    HTTPStatusError int pystr
  | JSONDecodeError pystr
  | OtherException pystr

fun raise_of :: "decode_failure \<Rightarrow> raised" where
  "raise_of (Malformed cause) = JSONDecodeError cause"
| "raise_of (Failed cause) = OtherException cause"

text \<open>
  The \<open>try\<close> block of \<open>_make_request\<close>, from the outcome of \<open>post\<close> on:
  \<open>raise_for_status()\<close>, then \<open>json.loads\<close> on the joined payloads of an
  event-stream text, or \<open>response.json()\<close> on the bytes of a plain body.
\<close>

definition try_request :: "json_decoder \<Rightarrow> bytes_decoder \<Rightarrow> http_outcome \<Rightarrow> raised + json" where
  "try_request loads rjson out =
     (case out of
        Raised cause \<Rightarrow> Inl (OtherException cause)
      | Responded r \<Rightarrow>
          if \<not> is_success (status_code r) then Inl (HTTPStatusError (status_code r) (body r))
          else
            let text = strip (body r) in
            if startswith text (ascii ''event:'') then
              (case loads (str_join [10] (data_lines text)) of
                 Inl failure \<Rightarrow> Inl (raise_of failure)
               | Inr v \<Rightarrow> Inr v)
            else
              (case rjson (raw_content r) of
                 Inl failure \<Rightarrow> Inl (raise_of failure)
               | Inr v \<Rightarrow> Inr v))"

text \<open>
  The three \<open>except\<close> clauses of \<open>_make_request\<close>. The second one reads the local
  variable \<open>response\<close>, which is bound only if \<open>post\<close> returned.
\<close>

definition handle_request :: "http_outcome \<Rightarrow> raised + json \<Rightarrow> py_error + json" where
  "handle_request out res =
     (case res of
        Inr v \<Rightarrow> Inr v
      | Inl (HTTPStatusError st b) \<Rightarrow>
          Inr (JObj [(ascii ''error'', JStr (ascii ''HTTP '' @ str_int st @ ascii '': '' @ b))])
      | Inl (JSONDecodeError cause) \<Rightarrow>
          (case out of
             Responded r \<Rightarrow>
               Inr (JObj [(ascii ''error'',
                           JStr (ascii ''JSON decode error: '' @ cause @
                                 ascii '' - Response: '' @ body r))])
           | Raised c \<Rightarrow> Inl UnboundLocalError)
      | Inl (OtherException cause) \<Rightarrow> Inr (JObj [(ascii ''error'', JStr cause)]))"

text \<open>The \<open>try\<close> statement as a whole, from the outcome of \<open>post\<close> on.\<close>

definition decode_outcome ::
  "json_decoder \<Rightarrow> bytes_decoder \<Rightarrow> http_outcome \<Rightarrow> py_error + json" where
  "decode_outcome loads rjson out = handle_request out (try_request loads rjson out)"

text \<open>The request \<open>_make_request\<close> posts; \<open>rid\<close> is \<open>str(uuid.uuid4())\<close>.\<close>

definition build_request :: "client \<Rightarrow> pystr \<Rightarrow> json \<Rightarrow> pystr \<Rightarrow> http_request" where
  "build_request c method params rid =
     \<lparr>req_url = base_url c @ ascii ''/mcp/request'',
      req_headers = base_headers @ auth_header c @ session_header c,
      req_json = JObj [(ascii ''jsonrpc'', JStr (ascii ''2.0'')),
                       (ascii ''id'', JStr rid),
                       (ascii ''method'', JStr method),
                       (ascii ''params'', params)]\<rparr>"

definition make_request ::
  "json_decoder \<Rightarrow> bytes_decoder \<Rightarrow> 'w http_post \<Rightarrow> client \<Rightarrow> pystr \<Rightarrow> json \<Rightarrow> pystr \<Rightarrow>
   'w \<Rightarrow> (py_error + json) \<times> 'w" where
  "make_request loads rjson post c method params rid w =
     (case post w (build_request c method params rid) of
        (out, w') \<Rightarrow> (decode_outcome loads rjson out, w'))"

subsection \<open>Handshake\<close>

definition initialize_request :: "client \<Rightarrow> http_request" where
  "initialize_request c =
     \<lparr>req_url = base_url c @ ascii ''/mcp/initialize'',
      req_headers = base_headers @ auth_header c,
      req_json =
        JObj [(ascii ''jsonrpc'', JStr (ascii ''2.0'')),
              (ascii ''id'', JInt 1),
              (ascii ''method'', JStr (ascii ''initialize'')),
              (ascii ''params'',
               JObj [(ascii ''protocolVersion'', JStr (ascii ''2024-11-05'')),
                     (ascii ''clientInfo'',
                      JObj [(ascii ''name'', JStr (ascii ''TestMCP'')),
                            (ascii ''version'', JStr (ascii ''1.0.0''))]),
                     (ascii ''capabilities'', JObj [])])]\<rparr>"

text \<open>
  From \<open>if "result" in data:\<close> to the last read of \<open>result\<close>:
  \<open>data["result"]\<close>, \<open>result.get("protocolVersion")\<close> and
  \<open>result.get("serverInfo", {}).get("name")\<close>. \<open>Inr True\<close> when the assignment of the
  session id is reached, \<open>Inr False\<close> when \<open>"result"\<close> is not in \<open>data\<close>.
\<close>

definition handshake_ok :: "json \<Rightarrow> py_error + bool" where
  "handshake_ok data =
     (case str_in (ascii ''result'') data of
        Inl e \<Rightarrow> Inl e
      | Inr present \<Rightarrow>
          if \<not> present then Inr False
          else
            (case data of
               JObj d \<Rightarrow>
                 (case map_of d (ascii ''result'') of
                    Some (JObj res) \<Rightarrow>
                      (case map_of res (ascii ''serverInfo'') of
                         None \<Rightarrow> Inr True
                       | Some (JObj info) \<Rightarrow> Inr True
                       | Some other \<Rightarrow> Inl AttributeError)
                  | _ \<Rightarrow> Inl AttributeError)
             | _ \<Rightarrow> Inl TypeError))"

text \<open>
  \<open>initialize_session\<close>: no \<open>raise_for_status()\<close>; every exception of the \<open>try\<close> block
  ends in \<open>return False\<close>.
\<close>

definition initialize_session ::
  "json_decoder \<Rightarrow> bytes_decoder \<Rightarrow> 'w http_post \<Rightarrow> client \<Rightarrow> 'w \<Rightarrow>
   (bool \<times> client) \<times> 'w" where
  "initialize_session loads rjson post c w =
     (case post w (initialize_request c) of
        (Raised cause, w') \<Rightarrow> ((False, c), w')
      | (Responded r, w') \<Rightarrow>
          (let text = strip (body r);
               decoded = (if startswith text (ascii ''event:'')
                          then loads (str_join [10] (data_lines text))
                          else rjson (raw_content r))
           in case decoded of
                Inl failure \<Rightarrow> ((False, c), w')
              | Inr data \<Rightarrow>
                  (case handshake_ok data of
                     Inr True \<Rightarrow>
                       ((True, c\<lparr>session_id := headers_get (headers r) (ascii ''Mcp-Session-Id'')\<rparr>),
                        w')
                   | _ \<Rightarrow> ((False, c), w'))))"

subsection \<open>Tool calls\<close>

datatype content_item = TextContent pystr | ImageContent pystr pystr

record tool_result =
  content :: "content_item list"
  isError :: bool

text \<open>
  \<open>str(v)\<close> as an f-string inserts it. The text of a list, a dict or a float is the
  runtime's; it is the parameter \<open>repr\<close>.
\<close>

fun format_value :: "(json \<Rightarrow> pystr) \<Rightarrow> json \<Rightarrow> pystr" where
  "format_value repr (JStr s) = s"
| "format_value repr (JInt n) = str_int n"
| "format_value repr JNull = ascii ''None''"
| "format_value repr (JBool b) = (if b then ascii ''True'' else ascii ''False'')"
| "format_value repr v = repr v"

text \<open>
  One pass of \<open>for item in content_data\<close>: \<open>item.get\<close> needs a dict, and
  \<open>TextContent(text=...)\<close> validates that the text is a string.
\<close>

fun text_items :: "json list \<Rightarrow> py_error + content_item list" where
  "text_items [] = Inr []"
| "text_items (JObj d # rest) =
     (if map_of d (ascii ''type'') = Some (JStr (ascii ''text'')) then
        (case (case map_of d (ascii ''text'') of None \<Rightarrow> JStr [] | Some t \<Rightarrow> t) of
           JStr t \<Rightarrow>
             (case text_items rest of
                Inl e \<Rightarrow> Inl e
              | Inr items \<Rightarrow> Inr (TextContent t # items))
         | _ \<Rightarrow> Inl ValidationError)
      else text_items rest)"
| "text_items (other # rest) = Inl AttributeError"

text \<open>The elements a \<open>for\<close> loop over \<open>content_data\<close> visits.\<close>

fun iterate :: "json \<Rightarrow> py_error + json list" where
  "iterate (JArr l) = Inr l"
| "iterate (JObj d) = Inr (map (\<lambda>(k, v). JStr k) d)"
| "iterate (JStr s) = Inr (map (\<lambda>ch. JStr [ch]) s)"
| "iterate other = Inl TypeError"

text \<open>\<open>d.get(key, default)\<close> on a decoded value: only a dict has \<open>get\<close>.\<close>

fun get_or :: "json \<Rightarrow> pystr \<Rightarrow> json \<Rightarrow> py_error + json" where
  "get_or (JObj d) key dflt = Inr (case map_of d key of None \<Rightarrow> dflt | Some v \<Rightarrow> v)"
| "get_or other key dflt = Inl AttributeError"

text \<open>\<open>call_tool\<close> after \<open>_make_request\<close> has returned \<open>response\<close>.\<close>

definition tool_result_of :: "(json \<Rightarrow> pystr) \<Rightarrow> json \<Rightarrow> py_error + tool_result" where
  "tool_result_of repr response =
     (case str_in (ascii ''error'') response of
        Inl e \<Rightarrow> Inl e
      | Inr has_error \<Rightarrow>
          if has_error then
            (case response of
               JObj d \<Rightarrow>
                 (case map_of d (ascii ''error'') of
                    Some msg \<Rightarrow>
                      Inr \<lparr>content = [TextContent (ascii ''Error: '' @ format_value repr msg)],
                           isError = True\<rparr>
                  | None \<Rightarrow> Inl TypeError)
             | _ \<Rightarrow> Inl TypeError)
          else
            (case get_or response (ascii ''result'') (JObj []) of
               Inl e \<Rightarrow> Inl e
             | Inr result_data \<Rightarrow>
                 (case get_or result_data (ascii ''content'') (JArr []) of
                    Inl e \<Rightarrow> Inl e
                  | Inr content_data \<Rightarrow>
                      (case iterate content_data of
                         Inl e \<Rightarrow> Inl e
                       | Inr items \<Rightarrow>
                           (case text_items items of
                              Inl e \<Rightarrow> Inl e
                            | Inr cs \<Rightarrow> Inr \<lparr>content = cs, isError = False\<rparr>)))))"

definition tool_params :: "pystr \<Rightarrow> json \<Rightarrow> json" where
  "tool_params name arguments =
     JObj [(ascii ''name'', JStr name), (ascii ''arguments'', arguments)]"

definition call_tool ::
  "json_decoder \<Rightarrow> bytes_decoder \<Rightarrow> (json \<Rightarrow> pystr) \<Rightarrow> 'w http_post \<Rightarrow> client \<Rightarrow> pystr \<Rightarrow>
   json \<Rightarrow> pystr \<Rightarrow> 'w \<Rightarrow> (py_error + tool_result) \<times> 'w" where
  "call_tool loads rjson repr post c name arguments rid w =
     (case make_request loads rjson post c (ascii ''tools/call'') (tool_params name arguments)
             rid w of
        (Inl e, w') \<Rightarrow> (Inl e, w')
      | (Inr response, w') \<Rightarrow> (tool_result_of repr response, w'))"

section \<open>The client of \<open>testMCP.py\<close>\<close>

text \<open>
  The loop over \<open>content_data\<close> in the \<open>call_tool\<close> of this variant: text items and
  image items are kept, each validated by its constructor.
\<close>

fun content_items :: "json list \<Rightarrow> py_error + content_item list" where
  "content_items [] = Inr []"
| "content_items (JObj d # rest) =
     (if map_of d (ascii ''type'') = Some (JStr (ascii ''text'')) then
        (case (case map_of d (ascii ''text'') of None \<Rightarrow> JStr [] | Some t \<Rightarrow> t) of
           JStr t \<Rightarrow>
             (case content_items rest of
                Inl e \<Rightarrow> Inl e
              | Inr items \<Rightarrow> Inr (TextContent t # items))
         | _ \<Rightarrow> Inl ValidationError)
      else if map_of d (ascii ''type'') = Some (JStr (ascii ''image'')) then
        (case (case map_of d (ascii ''data'') of None \<Rightarrow> JStr [] | Some x \<Rightarrow> x) of
           JStr image_data \<Rightarrow>
             (case (case map_of d (ascii ''mimeType'') of None \<Rightarrow> JStr [] | Some x \<Rightarrow> x) of
                JStr mime_type \<Rightarrow>
                  (case content_items rest of
                     Inl e \<Rightarrow> Inl e
                   | Inr items \<Rightarrow> Inr (ImageContent image_data mime_type # items))
              | _ \<Rightarrow> Inl ValidationError)
         | _ \<Rightarrow> Inl ValidationError)
      else content_items rest)"
| "content_items (other # rest) = Inl AttributeError"

text \<open>
  \<open>call_tool\<close> of this variant after \<open>_make_request\<close> has returned \<open>response\<close>. It
  ends with \<open>isError=result_data.get("isError", False)\<close>; what the result type makes
  of a value that is not a boolean is the parameter \<open>as_bool\<close>.
\<close>

definition testmcp_tool_result_of ::
  "(json \<Rightarrow> pystr) \<Rightarrow> (json \<Rightarrow> py_error + bool) \<Rightarrow> json \<Rightarrow> py_error + tool_result" where
  "testmcp_tool_result_of repr as_bool response =
     (case str_in (ascii ''error'') response of
        Inl e \<Rightarrow> Inl e
      | Inr has_error \<Rightarrow>
          if has_error then
            (case response of
               JObj d \<Rightarrow>
                 (case map_of d (ascii ''error'') of
                    Some msg \<Rightarrow>
                      Inr \<lparr>content = [TextContent (ascii ''Error: '' @ format_value repr msg)],
                           isError = True\<rparr>
                  | None \<Rightarrow> Inl TypeError)
             | _ \<Rightarrow> Inl TypeError)
          else
            (case get_or response (ascii ''result'') (JObj []) of
               Inl e \<Rightarrow> Inl e
             | Inr result_data \<Rightarrow>
                 (case get_or result_data (ascii ''content'') (JArr []) of
                    Inl e \<Rightarrow> Inl e
                  | Inr content_data \<Rightarrow>
                      (case iterate content_data of
                         Inl e \<Rightarrow> Inl e
                       | Inr items \<Rightarrow>
                           (case content_items items of
                              Inl e \<Rightarrow> Inl e
                            | Inr cs \<Rightarrow>
                                (case get_or result_data (ascii ''isError'') (JBool False) of
                                   Inl e \<Rightarrow> Inl e
                                 | Inr (JBool flag) \<Rightarrow> Inr \<lparr>content = cs, isError = flag\<rparr>
                                 | Inr other \<Rightarrow>
                                     (case as_bool other of
                                        Inl e \<Rightarrow> Inl e
                                      | Inr flag \<Rightarrow> Inr \<lparr>content = cs, isError = flag\<rparr>)))))))"

section \<open>The client of \<open>testMCP_gpt.py\<close>\<close>

text \<open>\<open>text.split("data:", 1)[1]\<close>: what follows the first occurrence, if there is one.\<close>

fun after_first :: "pystr \<Rightarrow> pystr \<Rightarrow> pystr option" where
  "after_first sep [] = (if sep = [] then Some [] else None)"
| "after_first sep (x # xs) =
     (if startswith (x # xs) sep then Some (drop (length sep) (x # xs))
      else after_first sep xs)"

text \<open>
  \<open>initialize_session\<close> of this variant; both framings go through \<open>json.loads\<close> on
  the text. It has no assignment to \<open>self.session_id\<close>: the client comes back as it
  went in.
\<close>

definition gpt_initialize_session ::
  "json_decoder \<Rightarrow> 'w http_post \<Rightarrow> client \<Rightarrow> 'w \<Rightarrow> (bool \<times> client) \<times> 'w" where
  "gpt_initialize_session loads post c w =
     (case post w (initialize_request c) of
        (Raised cause, w') \<Rightarrow> ((False, c), w')
      | (Responded r, w') \<Rightarrow>
          (let text = strip (body r);
               payload = (if startswith text (ascii ''event:'')
                          then map_option strip (after_first (ascii ''data:'') text)
                          else Some text)
           in case payload of
                None \<Rightarrow> ((False, c), w')
              | Some t \<Rightarrow>
                  (case loads t of
                     Inl failure \<Rightarrow> ((False, c), w')
                   | Inr data \<Rightarrow>
                       (case handshake_ok data of
                          Inr True \<Rightarrow> ((True, c), w')
                        | _ \<Rightarrow> ((False, c), w')))))"

text \<open>\<open>{"session_id": self.session_id, **params}\<close>\<close>

definition with_session :: "pystr \<Rightarrow> (pystr \<times> json) list \<Rightarrow> json" where
  "with_session sid params =
     JObj ((ascii ''session_id'',
            (case map_of params (ascii ''session_id'') of None \<Rightarrow> JStr sid | Some v \<Rightarrow> v))
           # filter (\<lambda>(k, v). k \<noteq> ascii ''session_id'') params)"

definition gpt_build_request ::
  "client \<Rightarrow> pystr \<Rightarrow> pystr \<Rightarrow> (pystr \<times> json) list \<Rightarrow> pystr \<Rightarrow> http_request" where
  "gpt_build_request c sid method params rid =
     \<lparr>req_url = base_url c @ ascii ''/mcp/request'',
      req_headers = base_headers @ auth_header c,
      req_json = JObj [(ascii ''jsonrpc'', JStr (ascii ''2.0'')),
                       (ascii ''id'', JStr rid),
                       (ascii ''method'', JStr method),
                       (ascii ''params'', with_session sid params)]\<rparr>"

text \<open>
  The \<open>try\<close> block and the two \<open>except\<close> clauses of this variant:
  \<open>response.json()\<close> only, and a decode failure falls to \<open>except Exception\<close>.
\<close>

definition gpt_decode :: "bytes_decoder \<Rightarrow> http_outcome \<Rightarrow> json" where
  "gpt_decode rjson out =
     (case out of
        Raised cause \<Rightarrow> JObj [(ascii ''error'', JStr cause)]
      | Responded r \<Rightarrow>
          if \<not> is_success (status_code r) then
            JObj [(ascii ''error'',
                   JStr (ascii ''HTTP '' @ str_int (status_code r) @ ascii '': '' @ body r))]
          else
            (case rjson (raw_content r) of
               Inl failure \<Rightarrow> JObj [(ascii ''error'', JStr (failure_text failure))]
             | Inr v \<Rightarrow> v))"

definition gpt_make_request ::
  "bytes_decoder \<Rightarrow> 'w http_post \<Rightarrow> client \<Rightarrow> pystr \<Rightarrow> (pystr \<times> json) list \<Rightarrow> pystr \<Rightarrow> 'w \<Rightarrow>
   json \<times> 'w" where
  "gpt_make_request rjson post c method params rid w =
     (case session_id c of
        None \<Rightarrow> (JObj [(ascii ''error'', JStr (ascii ''Session not initialized''))], w)
      | Some sid \<Rightarrow>
          if sid = [] then (JObj [(ascii ''error'', JStr (ascii ''Session not initialized''))], w)
          else
            (case post w (gpt_build_request c sid method params rid) of
               (out, w') \<Rightarrow> (gpt_decode rjson out, w')))"

text \<open>\<open>call_tool\<close> of this variant; its body after \<open>_make_request\<close> is the one above.\<close>

definition gpt_call_tool ::
  "bytes_decoder \<Rightarrow> (json \<Rightarrow> pystr) \<Rightarrow> 'w http_post \<Rightarrow> client \<Rightarrow> pystr \<Rightarrow> json \<Rightarrow> pystr \<Rightarrow>
   'w \<Rightarrow> (py_error + tool_result) \<times> 'w" where
  "gpt_call_tool rjson repr post c name arguments rid w =
     (case gpt_make_request rjson post c (ascii ''tools/call'')
             [(ascii ''name'', JStr name), (ascii ''arguments'', arguments)] rid w of
        (response, w') \<Rightarrow> (tool_result_of repr response, w'))"

section \<open>The test functions\<close>

text \<open>
  The library functions the driver uses: the JSON decoder, \<open>str.lower\<close>, and \<open>str\<close> of
  a content item.
\<close>

record pylib =
  json_loads :: json_decoder
  str_lower :: "pystr \<Rightarrow> pystr"
  item_str :: "content_item \<Rightarrow> pystr"

text \<open>\<open>client.call_tool\<close> as the test functions see it: a tool name and its arguments.\<close>

type_synonym 'w tool_env = "'w \<Rightarrow> pystr \<Rightarrow> json \<Rightarrow> (py_error + tool_result) \<times> 'w"

text \<open>
  The common body of the four \<open>test_...\<close> functions after \<open>call_tool\<close>:
  \<open>{"error": str(result.content[0])}\<close> on \<open>isError\<close>, else the first text decoded,
  or \<open>{"result": text}\<close> when it is not JSON.
\<close>

definition decode_tool_result :: "pylib \<Rightarrow> tool_result \<Rightarrow> py_error + json" where
  "decode_tool_result L res =
     (if isError res then
        (case content res of
           [] \<Rightarrow> Inl IndexError
         | item # rest \<Rightarrow> Inr (JObj [(ascii ''error'', JStr (item_str L item))]))
      else
        (case (case content res of
                 [] \<Rightarrow> Inr []
               | TextContent t # rest \<Rightarrow> Inr t
               | ImageContent d m # rest \<Rightarrow> Inl AttributeError) of
           Inl e \<Rightarrow> Inl e
         | Inr text \<Rightarrow>
             (case json_loads L text of
                Inr v \<Rightarrow> Inr v
              | Inl failure \<Rightarrow> Inr (JObj [(ascii ''result'', JStr text)]))))"

text \<open>
  A test function from its \<open>call_tool\<close> on: an exception of the call is not caught.
\<close>

definition tool_test ::
  "pylib \<Rightarrow> 'w tool_env \<Rightarrow> tool_method \<Rightarrow> json \<Rightarrow> 'w \<Rightarrow> (py_error + json) \<times> 'w" where
  "tool_test L tool m args w =
     (case tool w (method_name m) args of
        (Inl e, w') \<Rightarrow> (Inl e, w')
      | (Inr res, w') \<Rightarrow> (decode_tool_result L res, w'))"

text \<open>
  The \<open>args\<close> dict of each test function; the loop passes the same dict to
  \<open>log_test\<close>. An object name is whatever the listing gave, not always a string.
\<close>

definition list_metadata_objects_args :: "pystr \<Rightarrow> pystr \<Rightarrow> int \<Rightarrow> json" where
  "list_metadata_objects_args meta_type name_mask max_items =
     JObj [(ascii ''metaType'', JStr meta_type), (ascii ''nameMask'', JStr name_mask),
           (ascii ''maxItems'', JInt max_items)]"

definition get_metadata_structure_args :: "pystr \<Rightarrow> json \<Rightarrow> json" where
  "get_metadata_structure_args meta_type name =
     JObj [(ascii ''metaType'', JStr meta_type), (ascii ''name'', name)]"

definition list_predefined_data_args :: "pystr \<Rightarrow> json \<Rightarrow> pystr \<Rightarrow> int \<Rightarrow> json" where
  "list_predefined_data_args meta_type name predefined_mask max_items =
     JObj [(ascii ''metaType'', JStr meta_type), (ascii ''name'', name),
           (ascii ''predefinedMask'', JStr predefined_mask), (ascii ''maxItems'', JInt max_items)]"

definition get_predefined_data_args :: "pystr \<Rightarrow> json \<Rightarrow> json \<Rightarrow> json" where
  "get_predefined_data_args meta_type name predefined_name =
     JObj [(ascii ''metaType'', JStr meta_type), (ascii ''name'', name),
           (ascii ''predefinedName'', predefined_name)]"

text \<open>The four test functions.\<close>

definition test_list_metadata_objects ::
  "pylib \<Rightarrow> 'w tool_env \<Rightarrow> pystr \<Rightarrow> pystr \<Rightarrow> int \<Rightarrow> 'w \<Rightarrow> (py_error + json) \<times> 'w" where
  "test_list_metadata_objects L tool meta_type name_mask max_items w =
     tool_test L tool List_metadata_objects
       (list_metadata_objects_args meta_type name_mask max_items) w"

definition test_get_metadata_structure ::
  "pylib \<Rightarrow> 'w tool_env \<Rightarrow> pystr \<Rightarrow> json \<Rightarrow> 'w \<Rightarrow> (py_error + json) \<times> 'w" where
  "test_get_metadata_structure L tool meta_type name w =
     tool_test L tool Get_metadata_structure (get_metadata_structure_args meta_type name) w"

definition test_list_predefined_data ::
  "pylib \<Rightarrow> 'w tool_env \<Rightarrow> pystr \<Rightarrow> json \<Rightarrow> pystr \<Rightarrow> int \<Rightarrow> 'w \<Rightarrow> (py_error + json) \<times> 'w" where
  "test_list_predefined_data L tool meta_type name predefined_mask max_items w =
     tool_test L tool List_predefined_data
       (list_predefined_data_args meta_type name predefined_mask max_items) w"

definition test_get_predefined_data ::
  "pylib \<Rightarrow> 'w tool_env \<Rightarrow> pystr \<Rightarrow> json \<Rightarrow> json \<Rightarrow> 'w \<Rightarrow> (py_error + json) \<times> 'w" where
  "test_get_predefined_data L tool meta_type name predefined_name w =
     tool_test L tool Get_predefined_data
       (get_predefined_data_args meta_type name predefined_name) w"

section \<open>Parsing of listings\<close>

text \<open>\<open>s.split(c)[0]\<close> and \<open>s.split(c)[-1]\<close>.\<close>

definition split_first :: "nat \<Rightarrow> pystr \<Rightarrow> pystr" where
  "split_first c s = (case split_on c s of [] \<Rightarrow> [] | y # ys \<Rightarrow> y)"

definition split_last :: "nat \<Rightarrow> pystr \<Rightarrow> pystr" where
  "split_last c s = (case rev (split_on c s) of [] \<Rightarrow> [] | y # ys \<Rightarrow> y)"

text \<open>\<open>obj.split('.')[-1] if '.' in obj else obj\<close> for an element of a decoded list.\<close>

definition name_of_element :: "json \<Rightarrow> py_error + json" where
  "name_of_element obj =
     (case str_in [46] obj of
        Inl e \<Rightarrow> Inl e
      | Inr dotted \<Rightarrow>
          if dotted then
            (case obj of JStr s \<Rightarrow> Inr (JStr (split_last 46 s)) | _ \<Rightarrow> Inl AttributeError)
          else Inr obj)"

text \<open>
  \<open>[{"name": ...} for obj in xs if obj]\<close>. An object \<open>{"name": n}\<close> is kept as \<open>n\<close>,
  which is what \<open>random_object.get("name", ...)\<close> reads back.
\<close>

fun names_of_list :: "json list \<Rightarrow> py_error + json list" where
  "names_of_list [] = Inr []"
| "names_of_list (obj # rest) =
     (if truthy obj then
        (case name_of_element obj of
           Inl e \<Rightarrow> Inl e
         | Inr n \<Rightarrow> (case names_of_list rest of Inl e \<Rightarrow> Inl e | Inr ns \<Rightarrow> Inr (n # ns)))
      else names_of_list rest)"

text \<open>One line of a text listing of objects.\<close>

definition name_of_line :: "pystr \<Rightarrow> pystr option" where
  "name_of_line raw =
     (let line = strip raw in
      if line = [] then None
      else
        (let name = (if 40 \<in> set line then strip (split_first 40 line) else strip line);
             name = (if 46 \<in> set name then split_last 46 name else name)
         in if name = [] then None else Some name))"

definition parse_objects :: "json \<Rightarrow> py_error + json list" where
  "parse_objects list_result =
     (case list_result of
        JArr l \<Rightarrow> names_of_list l
      | JObj d \<Rightarrow>
          (case map_of d (ascii ''result'') of
             Some (JStr result_text) \<Rightarrow>
               Inr (map JStr (List.map_filter name_of_line (split_on 10 result_text)))
           | Some (JArr l) \<Rightarrow> names_of_list l
           | _ \<Rightarrow> Inr [])
      | _ \<Rightarrow> Inr [])"

text \<open>The marker of a predefined entry: Imya, colon, space, apostrophe.\<close>

definition name_marker :: pystr where
  "name_marker = [1048, 1084, 1103, 58, 32, 39]"

definition name_of_predefined_line :: "pystr \<Rightarrow> pystr option" where
  "name_of_predefined_line raw =
     (let line = strip raw in
      if line \<noteq> [] \<and> startswith line name_marker then
        (let name = strip (drop (length name_marker) line)
         in if name = [] then None else Some name)
      else None)"

definition parse_predefined :: "json \<Rightarrow> py_error + json list" where
  "parse_predefined predefined_list_result =
     (case predefined_list_result of
        JArr l \<Rightarrow> names_of_list l
      | JObj d \<Rightarrow>
          (case map_of d (ascii ''result'') of
             Some (JStr result_text) \<Rightarrow>
               Inr (map JStr (List.map_filter name_of_predefined_line (split_on 10 result_text)))
           | Some (JArr l) \<Rightarrow> names_of_list l
           | _ \<Rightarrow> Inr [])
      | _ \<Rightarrow> Inr [])"

section \<open>The exploration loop of \<open>run_tests_async\<close>\<close>

definition predefined_supported_types :: "pystr list" where
  "predefined_supported_types =
     [ascii ''Catalogs'', ascii ''ChartsOfCharacteristicTypes'', ascii ''ChartsOfAccounts'',
      ascii ''ChartsOfCalculationTypes'']"

definition all_types :: "pystr list" where
  "all_types =
     [ascii ''Catalogs'', ascii ''Documents'', ascii ''InformationRegisters'',
      ascii ''AccumulationRegisters'', ascii ''AccountingRegisters'',
      ascii ''CalculationRegisters'', ascii ''ChartsOfCharacteristicTypes'',
      ascii ''ChartsOfAccounts'', ascii ''ChartsOfCalculationTypes'',
      ascii ''BusinessProcesses'', ascii ''Tasks'', ascii ''ExchangePlans'',
      ascii ''FilterCriteria'', ascii ''Reports'', ascii ''DataProcessors'', ascii ''Enums'',
      ascii ''CommonModules'', ascii ''SessionParameters'', ascii ''CommonTemplates'',
      ascii ''CommonPictures'', ascii ''XDTOPackages'', ascii ''WebServices'',
      ascii ''HTTPServices'', ascii ''WSReferences'', ascii ''Styles'', ascii ''Languages'',
      ascii ''FunctionalOptions'', ascii ''FunctionalOptionsParameters'',
      ascii ''DefinedTypes'', ascii ''CommonAttributes'', ascii ''CommonCommands'',
      ascii ''CommandGroups'', ascii ''Constants'', ascii ''CommonForms'', ascii ''Roles'',
      ascii ''Subsystems'', ascii ''EventSubscriptions'', ascii ''ScheduledJobs'',
      ascii ''SettingsStorages'', ascii ''Sequences'', ascii ''DocumentJournals'',
      ascii ''ExternalDataSources'', ascii ''Interfaces'']"

text \<open>The name masks: empty, Nomenklatura, Dokument.\<close>

definition name_masks :: "pystr list" where
  "name_masks =
     [[],
      [1053, 1086, 1084, 1077, 1085, 1082, 1083, 1072, 1090, 1091, 1088, 1072],
      [1044, 1086, 1082, 1091, 1084, 1077, 1085, 1090]]"

text \<open>The predefined masks: empty, Osnovnoi, Dopolnitel'nyi.\<close>

definition predefined_masks :: "pystr list" where
  "predefined_masks =
     [[],
      [1054, 1089, 1085, 1086, 1074, 1085, 1086, 1081],
      [1044, 1086, 1087, 1086, 1083, 1085, 1080, 1090, 1077, 1083, 1100, 1085, 1099, 1081]]"

text \<open>
  The random draws of one round, in the order the round makes them. \<open>random.choice\<close>
  picks the element at the drawn position; \<open>random.sample\<close> is the function
  \<open>sample_pick\<close>.
\<close>

record rnd =
  coin :: bool
  type_pick :: nat
  mask_pick :: nat
  max_items :: int
  object_pick :: nat
  pmask_pick :: nat
  sample_size :: nat
  sample_pick :: "json list \<Rightarrow> nat \<Rightarrow> json list"

definition choice :: "'a list \<Rightarrow> nat \<Rightarrow> py_error + 'a" where
  "choice xs n = (if xs = [] then Inl IndexError else Inr (xs ! (n mod length xs)))"

text \<open>
  The state the loop carries: the counters, the log that \<open>log_test\<close> appends to (test
  number, API, parameters, result), and the remote side.
\<close>

record 'w run_state =
  rs_stats :: stats
  rs_log :: "(int \<times> pystr \<times> json \<times> json) list"
  rs_world :: 'w

definition log_test :: "int \<Rightarrow> tool_method \<Rightarrow> json \<Rightarrow> json \<Rightarrow> 'w run_state \<Rightarrow> 'w run_state" where
  "log_test test_number api params result st =
     st\<lparr>rs_log := rs_log st @ [(test_number, method_name api, params, result)]\<rparr>"

text \<open>
  One tested call: the test function \<open>test\<close>, \<open>log_test\<close> with the parameters
  \<open>params\<close>, then the classification chain with its counter updates. An exception ends
  the run, so nothing of the state is returned.
\<close>

definition tested_call ::
  "pylib \<Rightarrow> ('w \<Rightarrow> (py_error + json) \<times> 'w) \<Rightarrow> int \<Rightarrow> tool_method \<Rightarrow> json \<Rightarrow>
   'w run_state \<Rightarrow> py_error + (json \<times> verdict \<times> 'w run_state)" where
  "tested_call L test test_number m params st =
     (case test (rs_world st) of
        (Inl e, w') \<Rightarrow> Inl e
      | (Inr result, w') \<Rightarrow>
          (let st1 = log_test test_number m params result (st\<lparr>rs_world := w'\<rparr>) in
           case classify (str_lower L) result of
             Inl e \<Rightarrow> Inl e
           | Inr v \<Rightarrow> Inr (result, v, st1\<lparr>rs_stats := record_verdict m (rs_stats st1) v\<rparr>)))"

text \<open>Step 5: \<open>for predefined_item in selected_predefined\<close>.\<close>

fun predefined_details ::
  "pylib \<Rightarrow> 'w tool_env \<Rightarrow> int \<Rightarrow> pystr \<Rightarrow> json \<Rightarrow> json list \<Rightarrow> 'w run_state \<Rightarrow>
   py_error + 'w run_state" where
  "predefined_details L tool test_number meta_type object_name [] st = Inr st"
| "predefined_details L tool test_number meta_type object_name (predefined_name # rest) st =
     (if truthy predefined_name then
        (case tested_call L
                (test_get_predefined_data L tool meta_type object_name predefined_name)
                test_number Get_predefined_data
                (get_predefined_data_args meta_type object_name predefined_name) st of
           Inl e \<Rightarrow> Inl e
         | Inr (result, v, st') \<Rightarrow>
             predefined_details L tool test_number meta_type object_name rest st')
      else predefined_details L tool test_number meta_type object_name rest st)"

text \<open>Steps 4 and 5, entered when the meta type supports predefined data.\<close>

definition predefined_step ::
  "pylib \<Rightarrow> 'w tool_env \<Rightarrow> rnd \<Rightarrow> int \<Rightarrow> pystr \<Rightarrow> json \<Rightarrow> 'w run_state \<Rightarrow>
   py_error + 'w run_state" where
  "predefined_step L tool r test_number meta_type object_name st =
     (case choice predefined_masks (pmask_pick r) of
        Inl e \<Rightarrow> Inl e
      | Inr predefined_mask \<Rightarrow>
          (case tested_call L
                  (test_list_predefined_data L tool meta_type object_name predefined_mask
                     (max_items r))
                  test_number List_predefined_data
                  (list_predefined_data_args meta_type object_name predefined_mask (max_items r))
                  st of
             Inl e \<Rightarrow> Inl e
           | Inr (predefined_list_result, v, st') \<Rightarrow>
               if v \<noteq> Success then Inr st'
               else
                 (case parse_predefined predefined_list_result of
                    Inl e \<Rightarrow> Inl e
                  | Inr predefined_objects \<Rightarrow>
                      if predefined_objects = [] then Inr st'
                      else
                        (let num_to_test = min (length predefined_objects) (sample_size r);
                             selected_predefined = sample_pick r predefined_objects num_to_test
                         in predefined_details L tool test_number meta_type object_name
                              selected_predefined st'))))"

text \<open>Step 3 and what follows it, entered with a non-empty object name.\<close>

definition structure_step ::
  "pylib \<Rightarrow> 'w tool_env \<Rightarrow> rnd \<Rightarrow> int \<Rightarrow> pystr \<Rightarrow> json \<Rightarrow> 'w run_state \<Rightarrow>
   py_error + 'w run_state" where
  "structure_step L tool r test_number meta_type object_name st =
     (case tested_call L (test_get_metadata_structure L tool meta_type object_name)
             test_number Get_metadata_structure
             (get_metadata_structure_args meta_type object_name) st of
        Inl e \<Rightarrow> Inl e
      | Inr (structure_result, v, st') \<Rightarrow>
          if meta_type \<in> set predefined_supported_types
          then predefined_step L tool r test_number meta_type object_name st'
          else Inr st')"

text \<open>One pass of \<open>for i in range(200)\<close>, with \<open>test_number = i + 1\<close>.\<close>

definition trial_round ::
  "pylib \<Rightarrow> 'w tool_env \<Rightarrow> rnd \<Rightarrow> int \<Rightarrow> 'w run_state \<Rightarrow> py_error + 'w run_state" where
  "trial_round L tool r test_number st =
     (case choice (if coin r then predefined_supported_types else all_types) (type_pick r) of
        Inl e \<Rightarrow> Inl e
      | Inr meta_type \<Rightarrow>
          (case choice name_masks (mask_pick r) of
             Inl e \<Rightarrow> Inl e
           | Inr name_mask \<Rightarrow>
               (case tested_call L
                       (test_list_metadata_objects L tool meta_type name_mask (max_items r))
                       test_number List_metadata_objects
                       (list_metadata_objects_args meta_type name_mask (max_items r)) st of
                  Inl e \<Rightarrow> Inl e
                | Inr (list_result, v, st') \<Rightarrow>
                    if v \<noteq> Success then Inr st'
                    else
                      (case parse_objects list_result of
                         Inl e \<Rightarrow> Inl e
                       | Inr objects \<Rightarrow>
                           if objects = [] then Inr st'
                           else
                             (case choice objects (object_pick r) of
                                Inl e \<Rightarrow> Inl e
                              | Inr object_name \<Rightarrow>
                                  if truthy object_name
                                  then structure_step L tool r test_number meta_type
                                         object_name st'
                                  else Inr st')))))"

text \<open>The loop: round \<open>i\<close> draws \<open>draws i\<close>; the first exception ends the run.\<close>

definition run_rounds ::
  "pylib \<Rightarrow> 'w tool_env \<Rightarrow> (nat \<Rightarrow> rnd) \<Rightarrow> 'w run_state \<Rightarrow> py_error + 'w run_state" where
  "run_rounds L tool draws st0 =
     foldl (\<lambda>acc i. case acc of
                      Inl e \<Rightarrow> Inl e
                    | Inr st \<Rightarrow> trial_round L tool (draws i) (int i + 1) st)
           (Inr st0) [0..<200]"

section \<open>Shapes the specification speaks of\<close>


text \<open>A mapping, as opposed to the other values a body can decode to.\<close>

fun is_mapping :: "json \<Rightarrow> bool" where
  "is_mapping (JObj d) = True"
| "is_mapping other = False"


section \<open>Fixtures\<close>

text \<open>
  Concrete servers, bodies and draws on which the model is evaluated. \<open>reply_with\<close>
  gives every request the same outcome and counts the requests it has received.
  \<open>utf8_response\<close> is a response whose text is ASCII, so that its bytes are its code
  points.
\<close>

definition reply_with :: "http_outcome \<Rightarrow> nat http_post" where
  "reply_with out w req = (out, Suc w)"

definition utf8_response :: "int \<Rightarrow> pystr \<Rightarrow> http_response" where
  "utf8_response code text =
     \<lparr>status_code = code, raw_content = text, body = text,
      headers = [(ascii ''content-type'', ascii ''application/json'')]\<rparr>"

definition quoted :: "string \<Rightarrow> pystr" where
  "quoted s = 34 # ascii s @ [34]"

text \<open>The body \<open>{"result": {}}\<close>.\<close>

definition init_body :: pystr where
  "init_body = ascii ''{'' @ quoted ''result'' @ ascii '': {}}''"

text \<open>The body \<open>{"result": {"content": []}}\<close>.\<close>

definition call_body :: pystr where
  "call_body =
     ascii ''{'' @ quoted ''result'' @ ascii '': {'' @ quoted ''content'' @ ascii '': []}}''"

text \<open>
  An event-stream body with two data lines, the JSON text they carry, and the same text
  as an indented array of two lines.
\<close>

definition sse_body :: pystr where
  "sse_body = ascii ''event: message'' @ [10] @ ascii ''data: [1,'' @ [10]
              @ ascii ''data:  2]'' @ [13, 10, 10]"

definition plain_body :: pystr where
  "plain_body = ascii ''[1,'' @ [10] @ ascii ''2]''"

definition indented_body :: pystr where
  "indented_body = ascii ''[1,'' @ [10] @ ascii ''  2]''"

text \<open>What the two decoders give on these bodies.\<close>

definition demo_loads :: json_decoder where
  "demo_loads = table_decoder
     [(init_body, JObj [(ascii ''result'', JObj [])]),
      (call_body, JObj [(ascii ''result'', JObj [(ascii ''content'', JArr [])])]),
      (plain_body, JArr [JInt 1, JInt 2]),
      (indented_body, JArr [JInt 1, JInt 2])]"

definition demo_rjson :: bytes_decoder where
  "demo_rjson = bytes_table
     [(init_body, Inr (JObj [(ascii ''result'', JObj [])])),
      (call_body, Inr (JObj [(ascii ''result'', JObj [(ascii ''content'', JArr [])])])),
      (plain_body, Inr (JArr [JInt 1, JInt 2])),
      (indented_body, Inr (JArr [JInt 1, JInt 2]))]"






text \<open>
  A server that accepts the handshake and every call, and sends no session header.
\<close>

definition sessionless_server :: "nat http_post" where
  "sessionless_server w req =
     (Responded
        (utf8_response 200
           (if req_url req = ascii ''http://h/mcp/initialize'' then init_body else call_body)),
      Suc w)"

text \<open>
  A tool environment that answers each tool with the text the script gives for it (the
  empty text otherwise) and records the names of the tools called.
\<close>

definition scripted_tool :: "(pystr \<times> pystr) list \<Rightarrow> (pystr list) tool_env" where
  "scripted_tool script w name args =
     (Inr \<lparr>content = [TextContent (case map_of script name of Some t \<Rightarrow> t | None \<Rightarrow> [])],
           isError = False\<rparr>,
      w @ [name])"

definition demo_lib :: pylib where
  "demo_lib = \<lparr>json_loads = table_decoder [], str_lower = lower_basic,
               item_str = (\<lambda>item. case item of TextContent t \<Rightarrow> t | ImageContent d m \<Rightarrow> d)\<rparr>"

definition demo_draws :: rnd where
  "demo_draws = \<lparr>coin = True, type_pick = 0, mask_pick = 0, max_items = 10, object_pick = 0,
                 pmask_pick = 0, sample_size = 1, sample_pick = (\<lambda>xs k. take k xs)\<rparr>"

definition start_state :: "pystr list run_state" where
  "start_state = \<lparr>rs_stats = init_stats, rs_log = [], rs_world = []\<rparr>"

definition listing_script :: "(pystr \<times> pystr) list" where
  "listing_script =
     [(ascii ''list_metadata_objects'', ascii ''Catalog.Goods (Goods)''),
      (ascii ''get_metadata_structure'', ascii ''Error: not found'')]"

section \<open>Properties of the string operations\<close>

lemma startswith_iff: "startswith s p \<longleftrightarrow> (\<exists>q. s = p @ q)"
  unfolding startswith_def
  by (metis append_eq_conv_conj append_take_drop_id)

lemma contains_iff: "contains s k \<longleftrightarrow> (\<exists>p q. s = p @ k @ q)"
proof (induction s)
  case Nil
  then show ?case by auto
next
  case (Cons x xs)
  show ?case
  proof
    assume "contains (x # xs) k"
    then consider "startswith (x # xs) k" | "contains xs k" by auto
    then show "\<exists>p q. x # xs = p @ k @ q"
    proof cases
      case 1
      then obtain q where "x # xs = k @ q" by (auto simp: startswith_iff)
      then have "x # xs = [] @ k @ q" by simp
      then show ?thesis by blast
    next
      case 2
      then obtain p q where "xs = p @ k @ q" using Cons.IH by blast
      then have "x # xs = (x # p) @ k @ q" by simp
      then show ?thesis by blast
    qed
  next
    assume "\<exists>p q. x # xs = p @ k @ q"
    then obtain p q where pq: "x # xs = p @ k @ q" by blast
    show "contains (x # xs) k"
    proof (cases p)
      case Nil
      with pq have "startswith (x # xs) k" by (auto simp: startswith_iff)
      then show ?thesis by simp
    next
      case (Cons y ys)
      with pq have "xs = ys @ k @ q" by simp
      then have "contains xs k" using Cons.IH by blast
      then show ?thesis by simp
    qed
  qed
qed

lemma split_on_no_sep: "c \<notin> set l \<Longrightarrow> split_on c l = [l]"
  by (induction l) auto

lemma split_on_append_sep:
  "c \<notin> set l \<Longrightarrow> split_on c (l @ c # rest) = l # split_on c rest"
  by (induction l) auto

lemma split_on_join:
  "xs \<noteq> [] \<Longrightarrow> \<forall>l \<in> set xs. c \<notin> set l \<Longrightarrow> split_on c (str_join [c] xs) = xs"
proof (induction xs)
  case Nil
  then show ?case by simp
next
  case (Cons x xs)
  show ?case
  proof (cases xs)
    case Nil
    with Cons.prems show ?thesis by (simp add: split_on_no_sep)
  next
    case (Cons y ys)
    with Cons.prems Cons.IH show ?thesis by (simp add: split_on_append_sep)
  qed
qed

lemma concat_lines_join:
  "ls \<noteq> [] \<Longrightarrow>
     concat (map (\<lambda>l. d @ l @ [c]) ls) = str_join [c] (map (\<lambda>l. d @ l) ls) @ [c]"
proof (induction ls)
  case Nil
  then show ?case by simp
next
  case (Cons a ls)
  then show ?case by (cases ls) simp_all
qed

lemma str_join_cons: "ys \<noteq> [] \<Longrightarrow> str_join sep (x # ys) = x @ sep @ str_join sep ys"
  by (cases ys) simp_all

lemma str_join_nonempty:
  "xs \<noteq> [] \<Longrightarrow> last xs \<noteq> [] \<Longrightarrow> str_join sep xs \<noteq> []"
  by (induction sep xs rule: str_join.induct) auto

lemma last_str_join:
  "xs \<noteq> [] \<Longrightarrow> last xs \<noteq> [] \<Longrightarrow> last (str_join sep xs) = last (last xs)"
proof (induction xs)
  case Nil
  then show ?case by simp
next
  case (Cons x xs)
  show ?case
  proof (cases xs)
    case Nil
    then show ?thesis by simp
  next
    case (Cons y ys)
    with Cons.prems have ne: "str_join sep xs \<noteq> []"
      by (intro str_join_nonempty) simp_all
    from Cons Cons.prems Cons.IH have "last (str_join sep xs) = last (last xs)" by simp
    with ne Cons show ?thesis by simp
  qed
qed



lemma strip_fixed_last:
  assumes "strip l = l" "l \<noteq> []"
  shows "\<not> isspace (last l)"
proof
  assume sp: "isspace (last l)"
  let ?m = "dropWhile isspace l"
  have len: "length ?m \<le> length l" by (rule length_dropWhile_le)
  show False
  proof (cases "?m = []")
    case True
    with assms show False by (simp add: strip_def)
  next
    case False
    have "last ?m = last l"
      using False by (metis last_appendR takeWhile_dropWhile_id)
    then have "hd (rev ?m) = last l" using False by (simp add: hd_rev)
    with sp False have "length (dropWhile isspace (rev ?m)) < length (rev ?m)"
      by (cases "rev ?m") (auto intro: le_imp_less_Suc length_dropWhile_le)
    then have "length (strip l) < length l"
      using len by (simp add: strip_def)
    with assms(1) show False by simp
  qed
qed

section \<open>Classification\<close>

lemma keyword_hit_obj:
  "keyword_hit lower (JObj d) \<longleftrightarrow>
     (\<exists>s k. map_of d (ascii ''result'') = Some (JStr s) \<and> k \<in> set error_keywords \<and>
            (\<exists>p q. lower s = p @ k @ q))"
  by (auto simp: keyword_hit_def list_ex_iff contains_iff split: option.splits json.splits)

text \<open>
  C3. A decoded payload that is a mapping with an \<open>error\<close> key, or whose \<open>result\<close> is a
  string that contains, once lowered, one of the seven keywords, is classified
  \<open>Error\<close>; the test for emptiness comes later in the chain and cannot change that. The
  payload whose \<open>result\<close> is the text Oshibka: ne naiden (first letter capital) is
  classified \<open>Error\<close>.
\<close>

theorem classify_error_first:
  "((\<exists>d. x = JObj d \<and>
        (map_of d (ascii ''error'') \<noteq> None \<or>
         (\<exists>s k. map_of d (ascii ''result'') = Some (JStr s) \<and> k \<in> set error_keywords \<and>
                (\<exists>p q. lower s = p @ k @ q))))
      \<longrightarrow> classify lower x = Inr Error)
   \<and> classify lower_basic
        (JObj [(ascii ''result'',
                JStr [1054, 1096, 1080, 1073, 1082, 1072, 58, 32,
                      1085, 1077, 32, 1085, 1072, 1081, 1076, 1077, 1085])]) = Inr Error"
proof
  show "(\<exists>d. x = JObj d \<and>
        (map_of d (ascii ''error'') \<noteq> None \<or>
         (\<exists>s k. map_of d (ascii ''result'') = Some (JStr s) \<and> k \<in> set error_keywords \<and>
                (\<exists>p q. lower s = p @ k @ q))))
      \<longrightarrow> classify lower x = Inr Error"
  proof
    assume "\<exists>d. x = JObj d \<and>
        (map_of d (ascii ''error'') \<noteq> None \<or>
         (\<exists>s k. map_of d (ascii ''result'') = Some (JStr s) \<and> k \<in> set error_keywords \<and>
                (\<exists>p q. lower s = p @ k @ q)))"
    then obtain d where x: "x = JObj d"
      and h: "map_of d (ascii ''error'') \<noteq> None \<or> keyword_hit lower (JObj d)"
      unfolding keyword_hit_obj by blast
    show "classify lower x = Inr Error"
      using h unfolding x classify_def by auto
  qed
next
  show "classify lower_basic
        (JObj [(ascii ''result'',
                JStr [1054, 1096, 1080, 1073, 1082, 1072, 58, 32,
                      1085, 1077, 32, 1085, 1072, 1081, 1076, 1077, 1085])]) = Inr Error"
    by (simp add: classify_def keyword_hit_def ascii_def error_keywords_def lower_basic_def
        lower_cp_def startswith_def)
qed

text \<open>
  The payload \<open>{"error": "boom", "result": ""}\<close> passes the emptiness test and is
  classified \<open>Error\<close> all the same.
\<close>

theorem classify_error_first_witness:
  "is_empty_result (JObj [(ascii ''error'', JStr (ascii ''boom'')), (ascii ''result'', JStr [])])
   \<and> classify lower_basic
        (JObj [(ascii ''error'', JStr (ascii ''boom'')), (ascii ''result'', JStr [])]) = Inr Error"
  using classify_error_first
    [of "JObj [(ascii ''error'', JStr (ascii ''boom'')), (ascii ''result'', JStr [])]"
        lower_basic]
  by (simp add: is_empty_result_def ascii_def)

section \<open>Statistics\<close>

lemma foldl_record_other:
  "m' \<noteq> m \<Longrightarrow> foldl (record_verdict m) st vs m' = st m'"
  by (induction vs arbitrary: st) (auto simp: record_verdict_def)

lemma foldl_record_same:
  "foldl (record_verdict m) st vs m =
     \<lparr>m_total = m_total (st m) + int (length vs),
      m_success = m_success (st m) + int (count (mset vs) Success),
      m_errors = m_errors (st m) + int (count (mset vs) Error),
      m_skipped = m_skipped (st m) + int (count (mset vs) Skipped)\<rparr>"
proof (induction vs arbitrary: st)
  case Nil
  show ?case by simp
next
  case (Cons v vs)
  have "foldl (record_verdict m) st (v # vs) m =
          foldl (record_verdict m) (record_verdict m st v) vs m"
    by simp
  also have "\<dots> =
     \<lparr>m_total = m_total (record_verdict m st v m) + int (length vs),
      m_success = m_success (record_verdict m st v m) + int (count (mset vs) Success),
      m_errors = m_errors (record_verdict m st v m) + int (count (mset vs) Error),
      m_skipped = m_skipped (record_verdict m st v m) + int (count (mset vs) Skipped)\<rparr>"
    by (rule Cons.IH)
  also have "\<dots> =
     \<lparr>m_total = m_total (st m) + int (length (v # vs)),
      m_success = m_success (st m) + int (count (mset (v # vs)) Success),
      m_errors = m_errors (st m) + int (count (mset (v # vs)) Error),
      m_skipped = m_skipped (st m) + int (count (mset (v # vs)) Skipped)\<rparr>"
    by (cases v) (simp_all add: record_verdict_def)
  finally show ?case .
qed

lemma foldl_record_mset:
  assumes "mset vs = mset ws"
  shows "foldl (record_verdict m) st vs = foldl (record_verdict m) st ws"
proof
  fix m'
  have len: "length vs = length ws" using assms by (metis size_mset)
  show "foldl (record_verdict m) st vs m' = foldl (record_verdict m) st ws m'"
  proof (cases "m' = m")
    case True
    then show ?thesis by (simp add: foldl_record_same assms len)
  next
    case False
    then show ?thesis by (simp add: foldl_record_other)
  qed
qed

lemma four_verdicts_length:
  "mset ws = mset [Success, Error, Skipped, Success] \<Longrightarrow> length ws = 4"
proof -
  assume "mset ws = mset [Success, Error, Skipped, Success]"
  then have "size (mset ws) = size (mset [Success, Error, Skipped, Success])" by simp
  then show ?thesis by simp
qed

text \<open>
  C9. Recording a sequence of verdicts for a method gives the same counters as recording
  any permutation of it. Any permutation of Success, Error, Skipped, Success recorded
  from the initial counters gives total 4, success 2, errors 1, skipped 1. One recorded
  verdict adds one to the total and to exactly the counter of that verdict, and leaves
  the other methods alone.
\<close>

theorem stats_permutation_invariant:
  "(mset vs = mset ws \<longrightarrow> foldl (record_verdict m) st vs = foldl (record_verdict m) st ws)
   \<and> (mset ws = mset [Success, Error, Skipped, Success] \<longrightarrow>
        foldl (record_verdict m) init_stats ws m =
          \<lparr>m_total = 4, m_success = 2, m_errors = 1, m_skipped = 1\<rparr>)
   \<and> m_total (record_verdict m st v m) = m_total (st m) + 1
   \<and> m_success (record_verdict m st v m) = m_success (st m) + (if v = Success then 1 else 0)
   \<and> m_errors (record_verdict m st v m) = m_errors (st m) + (if v = Error then 1 else 0)
   \<and> m_skipped (record_verdict m st v m) = m_skipped (st m) + (if v = Skipped then 1 else 0)
   \<and> (\<forall>m'. m' \<noteq> m \<longrightarrow> record_verdict m st v m' = st m')"
proof (intro conjI impI allI)
  assume "mset vs = mset ws"
  then show "foldl (record_verdict m) st vs = foldl (record_verdict m) st ws"
    by (rule foldl_record_mset)
next
  assume h: "mset ws = mset [Success, Error, Skipped, Success]"
  then have "length ws = 4" by (rule four_verdicts_length)
  then show "foldl (record_verdict m) init_stats ws m =
          \<lparr>m_total = 4, m_success = 2, m_errors = 1, m_skipped = 1\<rparr>"
    by (simp add: foldl_record_same h init_stats_def)
qed (cases v; simp add: record_verdict_def)+

theorem stats_permutation_invariant_witness:
  "mset [Success, Error, Skipped, Success] = mset [Skipped, Success, Success, Error]
   \<and> foldl (record_verdict Get_metadata_structure) init_stats [Skipped, Success, Success, Error]
       = foldl (record_verdict Get_metadata_structure) init_stats [Success, Error, Skipped, Success]
   \<and> foldl (record_verdict Get_metadata_structure) init_stats [Skipped, Success, Success, Error]
       Get_metadata_structure = \<lparr>m_total = 4, m_success = 2, m_errors = 1, m_skipped = 1\<rparr>
   \<and> record_verdict Get_metadata_structure init_stats Error List_metadata_objects
       = init_stats List_metadata_objects"
proof -
  have e: "mset [Skipped, Success, Success, Error] = mset [Success, Error, Skipped, Success]"
    by simp
  show ?thesis
    using e stats_permutation_invariant
      [of "[Success, Error, Skipped, Success]" "[Skipped, Success, Success, Error]"
          Get_metadata_structure init_stats Error]
    by simp
qed

section \<open>Summary\<close>

lemma success_rate_guarded:
  "success_rate s t = Inr (if t > 0 then real_of_int s / real_of_int t * 100 else 0)"
  by (simp add: success_rate_def py_truediv_def)

lemma summary_rows_eq:
  "summary_rows st ms (ta, ts, te, tk) =
     Inr (map (\<lambda>m. \<lparr>r_label = method_name m, r_total = m_total (st m),
                     r_success = m_success (st m), r_errors = m_errors (st m),
                     r_skipped = m_skipped (st m),
                     r_rate = (if m_total (st m) > 0
                               then real_of_int (m_success (st m)) / real_of_int (m_total (st m))
                                    * 100
                               else 0)\<rparr>) ms,
          (ta + sum_list (map (\<lambda>m. m_total (st m)) ms),
           ts + sum_list (map (\<lambda>m. m_success (st m)) ms),
           te + sum_list (map (\<lambda>m. m_errors (st m)) ms),
           tk + sum_list (map (\<lambda>m. m_skipped (st m)) ms)))"
  by (induction ms arbitrary: ta ts te tk)
     (simp_all add: success_rate_guarded add.assoc)

text \<open>
  C8. The summary never fails with a division by zero. It has one row per method, in the
  order list_metadata_objects, get_metadata_structure, list_predefined_data,
  get_predefined_data, each with the method's four counters and the rate
  success / total * 100, which is 0 when the total is 0; the last row carries the sums
  of the four methods' counters and the rate of the sums under the same guard. (The
  quotient is exact here; the rounding of the float is not part of the model.)
\<close>

theorem summarize_rows:
  "summarize st =
     Inr ([\<lparr>r_label = ascii ''list_metadata_objects'',
             r_total = m_total (st List_metadata_objects),
             r_success = m_success (st List_metadata_objects),
             r_errors = m_errors (st List_metadata_objects),
             r_skipped = m_skipped (st List_metadata_objects),
             r_rate = (if m_total (st List_metadata_objects) > 0
                       then real_of_int (m_success (st List_metadata_objects)) /
                            real_of_int (m_total (st List_metadata_objects)) * 100
                       else 0)\<rparr>,
           \<lparr>r_label = ascii ''get_metadata_structure'',
             r_total = m_total (st Get_metadata_structure),
             r_success = m_success (st Get_metadata_structure),
             r_errors = m_errors (st Get_metadata_structure),
             r_skipped = m_skipped (st Get_metadata_structure),
             r_rate = (if m_total (st Get_metadata_structure) > 0
                       then real_of_int (m_success (st Get_metadata_structure)) /
                            real_of_int (m_total (st Get_metadata_structure)) * 100
                       else 0)\<rparr>,
           \<lparr>r_label = ascii ''list_predefined_data'',
             r_total = m_total (st List_predefined_data),
             r_success = m_success (st List_predefined_data),
             r_errors = m_errors (st List_predefined_data),
             r_skipped = m_skipped (st List_predefined_data),
             r_rate = (if m_total (st List_predefined_data) > 0
                       then real_of_int (m_success (st List_predefined_data)) /
                            real_of_int (m_total (st List_predefined_data)) * 100
                       else 0)\<rparr>,
           \<lparr>r_label = ascii ''get_predefined_data'',
             r_total = m_total (st Get_predefined_data),
             r_success = m_success (st Get_predefined_data),
             r_errors = m_errors (st Get_predefined_data),
             r_skipped = m_skipped (st Get_predefined_data),
             r_rate = (if m_total (st Get_predefined_data) > 0
                       then real_of_int (m_success (st Get_predefined_data)) /
                            real_of_int (m_total (st Get_predefined_data)) * 100
                       else 0)\<rparr>],
          \<lparr>r_label = totals_label,
            r_total = m_total (st List_metadata_objects) + m_total (st Get_metadata_structure)
                      + m_total (st List_predefined_data) + m_total (st Get_predefined_data),
            r_success = m_success (st List_metadata_objects) + m_success (st Get_metadata_structure)
                      + m_success (st List_predefined_data) + m_success (st Get_predefined_data),
            r_errors = m_errors (st List_metadata_objects) + m_errors (st Get_metadata_structure)
                      + m_errors (st List_predefined_data) + m_errors (st Get_predefined_data),
            r_skipped = m_skipped (st List_metadata_objects) + m_skipped (st Get_metadata_structure)
                      + m_skipped (st List_predefined_data) + m_skipped (st Get_predefined_data),
            r_rate =
              (if m_total (st List_metadata_objects) + m_total (st Get_metadata_structure)
                    + m_total (st List_predefined_data) + m_total (st Get_predefined_data) > 0
               then real_of_int (m_success (st List_metadata_objects)
                      + m_success (st Get_metadata_structure)
                      + m_success (st List_predefined_data) + m_success (st Get_predefined_data)) /
                    real_of_int (m_total (st List_metadata_objects)
                      + m_total (st Get_metadata_structure)
                      + m_total (st List_predefined_data) + m_total (st Get_predefined_data)) * 100
               else 0)\<rparr>)
   \<and> (m_total (st m) = 0 \<longrightarrow> success_rate (m_success (st m)) (m_total (st m)) = Inr 0)
   \<and> success_rate s t \<noteq> Inl ZeroDivisionError"
  by (simp add: summarize_def summary_rows_eq methods_def success_rate_guarded add.assoc)

theorem summarize_rows_witness:
  "m_total (init_stats Get_predefined_data) = 0
   \<and> success_rate (m_success (init_stats Get_predefined_data))
        (m_total (init_stats Get_predefined_data)) = Inr 0
   \<and> (\<exists>rows tot. summarize init_stats = Inr (rows, tot) \<and> map r_rate rows = [0, 0, 0, 0]
        \<and> r_total tot = 0 \<and> r_rate tot = 0)"
  using summarize_rows [of init_stats Get_predefined_data 0 0]
  by (simp add: init_stats_def)

section \<open>Transport\<close>

lemma decode_outcome_cases:
  "decode_outcome loads rjson (Raised cause) = Inr (JObj [(ascii ''error'', JStr cause)])"
  "\<not> is_success (status_code r) \<Longrightarrow>
     decode_outcome loads rjson (Responded r) =
       Inr (JObj [(ascii ''error'',
                   JStr (ascii ''HTTP '' @ str_int (status_code r) @ ascii '': '' @ body r))])"
  "is_success (status_code r) \<Longrightarrow>
     decode_outcome loads rjson (Responded r) =
       (case (if startswith (strip (body r)) (ascii ''event:'')
              then loads (str_join [10] (data_lines (strip (body r))))
              else rjson (raw_content r)) of
          Inl (Malformed cause) \<Rightarrow>
            Inr (JObj [(ascii ''error'',
                        JStr (ascii ''JSON decode error: '' @ cause @
                              ascii '' - Response: '' @ body r))])
        | Inl (Failed cause) \<Rightarrow> Inr (JObj [(ascii ''error'', JStr cause)])
        | Inr v \<Rightarrow> Inr v)"
  by (simp_all add: decode_outcome_def try_request_def handle_request_def Let_def
      split: sum.splits decode_failure.splits)

lemma decode_outcome_total: "\<exists>v. decode_outcome loads rjson out = Inr v"
proof (cases out)
  case (Raised cause)
  then show ?thesis by (simp add: decode_outcome_cases)
next
  case (Responded r)
  then show ?thesis
    by (cases "is_success (status_code r)")
       (auto simp: decode_outcome_cases split: sum.splits decode_failure.splits)
qed

lemma error_value_is_mapping: "is_mapping (JObj [(k, JStr s)])"
  by simp

text \<open>
  C1. Whatever \<open>post\<close> does with the request, \<open>_make_request\<close> returns one value and
  raises nothing. A raised transport failure gives \<open>{"error": cause}\<close>; a status
  outside 200..299 gives \<open>{"error": "HTTP <status>: <body>"}\<close>; a body the decoder
  rejects gives \<open>{"error": "JSON decode error: <cause> - Response: <raw body>"}\<close>; any
  other exception of the decoder gives \<open>{"error": cause}\<close>. Otherwise the decoded value
  is returned as it is: a returned value that is not a mapping is the decoded body of
  a response with a success status.
\<close>

theorem make_request_returns_value:
  assumes "post w (build_request c rpc_method params rid) = (out, w')"
  shows "(\<exists>v. make_request loads rjson post c rpc_method params rid w = (Inr v, w'))
    \<and> (\<forall>cause. out = Raised cause \<longrightarrow>
          make_request loads rjson post c rpc_method params rid w =
            (Inr (JObj [(ascii ''error'', JStr cause)]), w'))
    \<and> (\<forall>r. out = Responded r \<and> \<not> is_success (status_code r) \<longrightarrow>
          make_request loads rjson post c rpc_method params rid w =
            (Inr (JObj [(ascii ''error'',
                         JStr (ascii ''HTTP '' @ str_int (status_code r) @ ascii '': '' @ body r))]),
             w'))
    \<and> (\<forall>r cause. out = Responded r \<and> is_success (status_code r) \<and>
          (if startswith (strip (body r)) (ascii ''event:'')
           then loads (str_join [10] (data_lines (strip (body r))))
           else rjson (raw_content r)) = Inl (Malformed cause) \<longrightarrow>
          make_request loads rjson post c rpc_method params rid w =
            (Inr (JObj [(ascii ''error'',
                         JStr (ascii ''JSON decode error: '' @ cause @
                               ascii '' - Response: '' @ body r))]),
             w'))
    \<and> (\<forall>r cause. out = Responded r \<and> is_success (status_code r) \<and>
          (if startswith (strip (body r)) (ascii ''event:'')
           then loads (str_join [10] (data_lines (strip (body r))))
           else rjson (raw_content r)) = Inl (Failed cause) \<longrightarrow>
          make_request loads rjson post c rpc_method params rid w =
            (Inr (JObj [(ascii ''error'', JStr cause)]), w'))
    \<and> (\<forall>r v. out = Responded r \<and> is_success (status_code r) \<and>
          (if startswith (strip (body r)) (ascii ''event:'')
           then loads (str_join [10] (data_lines (strip (body r))))
           else rjson (raw_content r)) = Inr v \<longrightarrow>
          make_request loads rjson post c rpc_method params rid w = (Inr v, w'))
    \<and> (\<forall>v. make_request loads rjson post c rpc_method params rid w = (Inr v, w') \<and>
          \<not> is_mapping v \<longrightarrow>
          (\<exists>r. out = Responded r \<and> is_success (status_code r) \<and>
             (if startswith (strip (body r)) (ascii ''event:'')
              then loads (str_join [10] (data_lines (strip (body r))))
              else rjson (raw_content r)) = Inr v))"
proof -
  have mr: "make_request loads rjson post c rpc_method params rid w
              = (decode_outcome loads rjson out, w')"
    using assms by (simp add: make_request_def)
  have from_body: "\<exists>r. out = Responded r \<and> is_success (status_code r) \<and>
             (if startswith (strip (body r)) (ascii ''event:'')
              then loads (str_join [10] (data_lines (strip (body r))))
              else rjson (raw_content r)) = Inr v"
    if d: "decode_outcome loads rjson out = Inr v" and n: "\<not> is_mapping v" for v
  proof (cases out)
    case (Raised cause)
    with d n show ?thesis by (auto simp: decode_outcome_cases)
  next
    case (Responded r)
    show ?thesis
    proof (cases "is_success (status_code r)")
      case False
      with d n Responded show ?thesis by (auto simp: decode_outcome_cases)
    next
      case True
      with d n Responded show ?thesis
        by (auto simp: decode_outcome_cases split: sum.splits decode_failure.splits if_splits)
    qed
  qed
  show ?thesis
    using decode_outcome_total [of loads rjson out] from_body
    by (auto simp: mr decode_outcome_cases)
qed

text \<open>A 404, a timeout, and a 200 whose body is not JSON.\<close>

theorem make_request_returns_value_witness:
  "make_request (table_decoder []) (bytes_table [])
      (reply_with (Responded (utf8_response 404 (ascii ''Not Found''))))
      (new_client (ascii ''http://h'') None) (ascii ''tools/call'') (JObj []) (ascii ''r1'') 0
    = (Inr (JObj [(ascii ''error'', JStr (ascii ''HTTP 404: Not Found''))]), 1)
   \<and> make_request (table_decoder []) (bytes_table [])
      (reply_with (Raised (ascii ''timed out'')))
      (new_client (ascii ''http://h'') None) (ascii ''tools/call'') (JObj []) (ascii ''r1'') 0
    = (Inr (JObj [(ascii ''error'', JStr (ascii ''timed out''))]), 1)
   \<and> make_request (table_decoder []) (bytes_table [])
      (reply_with (Responded (utf8_response 200 (ascii ''oops''))))
      (new_client (ascii ''http://h'') None) (ascii ''tools/call'') (JObj []) (ascii ''r1'') 0
    = (Inr (JObj [(ascii ''error'',
                   JStr (ascii ''JSON decode error: Expecting value - Response: oops''))]), 1)"
proof -
  let ?c = "new_client (ascii ''http://h'') None"
  let ?o1 = "Responded (utf8_response 404 (ascii ''Not Found''))"
  let ?o2 = "Raised (ascii ''timed out'')"
  let ?o3 = "Responded (utf8_response 200 (ascii ''oops''))"
  have a: "make_request (table_decoder []) (bytes_table []) (reply_with ?o1) ?c
             (ascii ''tools/call'') (JObj []) (ascii ''r1'') 0
      = (Inr (JObj [(ascii ''error'', JStr (ascii ''HTTP 404: Not Found''))]), 1)"
    using make_request_returns_value
      [where post = "reply_with ?o1" and w = 0 and c = ?c and rpc_method = "ascii ''tools/call''"
         and params = "JObj []" and rid = "ascii ''r1''" and out = ?o1 and w' = 1
         and loads = "table_decoder []" and rjson = "bytes_table []"]
    by (simp add: reply_with_def utf8_response_def is_success_def str_int_def str_nat.simps
        ascii_def)
  have b: "make_request (table_decoder []) (bytes_table []) (reply_with ?o2) ?c
             (ascii ''tools/call'') (JObj []) (ascii ''r1'') 0
      = (Inr (JObj [(ascii ''error'', JStr (ascii ''timed out''))]), 1)"
    using make_request_returns_value
      [where post = "reply_with ?o2" and w = 0 and c = ?c and rpc_method = "ascii ''tools/call''"
         and params = "JObj []" and rid = "ascii ''r1''" and out = ?o2 and w' = 1
         and loads = "table_decoder []" and rjson = "bytes_table []"]
    by (simp add: reply_with_def)
  have c: "make_request (table_decoder []) (bytes_table []) (reply_with ?o3) ?c
             (ascii ''tools/call'') (JObj []) (ascii ''r1'') 0
      = (Inr (JObj [(ascii ''error'',
                   JStr (ascii ''JSON decode error: Expecting value - Response: oops''))]), 1)"
    using make_request_returns_value
      [where post = "reply_with ?o3" and w = 0 and c = ?c and rpc_method = "ascii ''tools/call''"
         and params = "JObj []" and rid = "ascii ''r1''" and out = ?o3 and w' = 1
         and loads = "table_decoder []" and rjson = "bytes_table []"]
    by (simp add: reply_with_def utf8_response_def is_success_def bytes_table_def ascii_def
        strip_def isspace_def startswith_def)
  show ?thesis using a b c by simp
qed

text \<open>
  A 200 response whose body is the JSON array \<open>[1, 2]\<close> on two lines: \<open>_make_request\<close>
  returns the list, which is not a mapping, and \<open>call_tool\<close> then raises
  \<open>AttributeError\<close> at \<open>response.get\<close>.
\<close>

theorem make_request_returns_list:
  "make_request demo_loads demo_rjson (reply_with (Responded (utf8_response 200 plain_body)))
      (new_client (ascii ''http://h'') None) (ascii ''tools/call'') (JObj []) (ascii ''r1'') 0
    = (Inr (JArr [JInt 1, JInt 2]), 1)
   \<and> \<not> is_mapping (JArr [JInt 1, JInt 2])
   \<and> call_tool demo_loads demo_rjson (\<lambda>v. [])
      (reply_with (Responded (utf8_response 200 plain_body)))
      (new_client (ascii ''http://h'') None) (ascii ''list_metadata_objects'') (JObj [])
      (ascii ''r1'') 0
    = (Inl AttributeError, 1)"
  by (simp add: call_tool_def make_request_def reply_with_def utf8_response_def
      decode_outcome_def try_request_def handle_request_def is_success_def demo_rjson_def
      bytes_table_def plain_body_def indented_body_def init_body_def call_body_def quoted_def
      strip_def isspace_def startswith_def tool_result_of_def ascii_def Let_def)

subsection \<open>The two framings\<close>














text \<open>
  Carriage returns and blanks around the payloads are stripped with them: a body with
  the two data lines \<open>[1,\<close> and \<open>2]\<close> gives the text of the array.
\<close>

lemma sse_body_payload: "str_join [10] (data_lines (strip sse_body)) = plain_body"
  by (simp add: sse_body_def plain_body_def data_lines_def strip_def isspace_def
      startswith_def ascii_def)

section \<open>Session\<close>

lemma initialize_session_True:
  assumes "post w (initialize_request c) = (Responded r, w1)"
    and "initialize_session loads rjson post c w = ((True, c'), w1)"
  shows "c' = c\<lparr>session_id := headers_get (headers r) (ascii ''Mcp-Session-Id'')\<rparr>"
  using assms
  by (auto simp: initialize_session_def Let_def split: sum.splits bool.splits if_splits)

lemma base_headers_no_session:
  "(k, v) \<in> set (base_headers @ auth_header c) \<Longrightarrow>
     lower_basic k \<noteq> lower_basic (ascii ''Mcp-Session-Id'')"
  by (auto simp: base_headers_def auth_header_def ascii_def lower_basic_def lower_cp_def
      split: option.splits if_splits)

text \<open>
  C5. When \<open>initialize_session\<close> returns \<open>True\<close> on a response without an
  \<open>Mcp-Session-Id\<close> header, the client has no session id; the headers of every later
  request are the content type, the accepted types and the optional authorization, none
  of them the session header; the request is posted and its outcome decoded as usual,
  so a 200 response with a JSON body gives the decoded value.
\<close>

theorem sessionless_requests_are_sent:
  assumes "post w (initialize_request c) = (Responded r, w1)"
    and "initialize_session loads rjson post c w = ((True, c'), w1)"
    and "headers_get (headers r) (ascii ''Mcp-Session-Id'') = None"
  shows "session_id c' = None
    \<and> req_headers (build_request c' rpc_method params rid) = base_headers @ auth_header c
    \<and> (\<forall>(k, v) \<in> set (req_headers (build_request c' rpc_method params rid)).
          lower_basic k \<noteq> lower_basic (ascii ''Mcp-Session-Id''))
    \<and> (\<forall>out w2. post w1 (build_request c' rpc_method params rid) = (out, w2) \<longrightarrow>
          make_request loads rjson post c' rpc_method params rid w1 = (decode_outcome loads rjson out, w2))
    \<and> (\<forall>r2 w2 res. post w1 (build_request c' rpc_method params rid) = (Responded r2, w2) \<and>
          is_success (status_code r2) \<and> \<not> startswith (strip (body r2)) (ascii ''event:'') \<and>
          rjson (raw_content r2) = Inr res \<longrightarrow>
          make_request loads rjson post c' rpc_method params rid w1 = (Inr res, w2))"
proof -
  have c': "c' = c\<lparr>session_id := None\<rparr>"
    using initialize_session_True [OF assms(1,2)] assms(3) by simp
  have hs: "req_headers (build_request c' rpc_method params rid) = base_headers @ auth_header c"
    by (simp add: c' build_request_def session_header_def auth_header_def)
  have no: "\<forall>(k, v) \<in> set (req_headers (build_request c' rpc_method params rid)).
          lower_basic k \<noteq> lower_basic (ascii ''Mcp-Session-Id'')"
    unfolding hs using base_headers_no_session by blast
  have sid: "session_id c' = None" by (simp add: c')
  have sent: "\<And>out w2. post w1 (build_request c' rpc_method params rid) = (out, w2) \<Longrightarrow>
          make_request loads rjson post c' rpc_method params rid w1 = (decode_outcome loads rjson out, w2)"
    by (simp add: make_request_def)
  show ?thesis
    using sid hs no sent by (auto simp: decode_outcome_cases)
qed

lemma sessionless_handshake:
  "initialize_session demo_loads demo_rjson sessionless_server (new_client (ascii ''http://h'') None) 0
     = ((True, new_client (ascii ''http://h'') None), 1)"
  by (simp add: initialize_session_def sessionless_server_def initialize_request_def
      new_client_def utf8_response_def demo_rjson_def bytes_table_def init_body_def
      call_body_def quoted_def ascii_def strip_def isspace_def startswith_def handshake_ok_def
      headers_get_def lower_basic_def lower_cp_def Let_def)

theorem sessionless_requests_are_sent_witness:
  "initialize_session demo_loads demo_rjson sessionless_server (new_client (ascii ''http://h'') None) 0
     = ((True, new_client (ascii ''http://h'') None), 1)
   \<and> make_request demo_loads demo_rjson sessionless_server (new_client (ascii ''http://h'') None)
        (ascii ''tools/call'') (tool_params (ascii ''list_metadata_objects'') (JObj []))
        (ascii ''r1'') 1
     = (Inr (JObj [(ascii ''result'', JObj [(ascii ''content'', JArr [])])]), 2)"
proof -
  let ?c = "new_client (ascii ''http://h'') None"
  let ?r = "utf8_response 200 init_body"
  have p: "sessionless_server 0 (initialize_request ?c) = (Responded ?r, 1)"
    by (simp add: sessionless_server_def initialize_request_def new_client_def ascii_def)
  have h: "headers_get (headers ?r) (ascii ''Mcp-Session-Id'') = None"
    by (simp add: utf8_response_def headers_get_def lower_basic_def lower_cp_def ascii_def)
  have q: "sessionless_server 1
             (build_request ?c (ascii ''tools/call'')
                (tool_params (ascii ''list_metadata_objects'') (JObj [])) (ascii ''r1''))
           = (Responded (utf8_response 200 call_body), 2)"
    by (simp add: sessionless_server_def build_request_def new_client_def ascii_def)
  have e: "\<not> startswith (strip (body (utf8_response 200 call_body))) (ascii ''event:'')"
    by (simp add: utf8_response_def call_body_def quoted_def ascii_def strip_def isspace_def
        startswith_def)
  have l: "demo_rjson (raw_content (utf8_response 200 call_body)) =
             Inr (JObj [(ascii ''result'', JObj [(ascii ''content'', JArr [])])])"
    by (simp add: utf8_response_def demo_rjson_def bytes_table_def init_body_def call_body_def
        quoted_def ascii_def)
  note T = sessionless_requests_are_sent
      [where post = sessionless_server and w = 0 and c = ?c and r = ?r and ?w1.0 = 1
         and loads = demo_loads and rjson = demo_rjson and c' = ?c and rpc_method = "ascii ''tools/call''"
         and params = "tool_params (ascii ''list_metadata_objects'') (JObj [])"
         and rid = "ascii ''r1''", OF p sessionless_handshake h]
  from T have "\<forall>r2 w2 res.
      sessionless_server 1
        (build_request ?c (ascii ''tools/call'')
           (tool_params (ascii ''list_metadata_objects'') (JObj [])) (ascii ''r1''))
        = (Responded r2, w2) \<and>
      is_success (status_code r2) \<and> \<not> startswith (strip (body r2)) (ascii ''event:'') \<and>
      demo_rjson (raw_content r2) = Inr res \<longrightarrow>
      make_request demo_loads demo_rjson sessionless_server ?c (ascii ''tools/call'')
        (tool_params (ascii ''list_metadata_objects'') (JObj [])) (ascii ''r1'') 1 = (Inr res, w2)"
    by (elim conjE)
  from this [rule_format, OF conjI [OF q]] e l
  have "make_request demo_loads demo_rjson sessionless_server ?c (ascii ''tools/call'')
        (tool_params (ascii ''list_metadata_objects'') (JObj [])) (ascii ''r1'') 1
     = (Inr (JObj [(ascii ''result'', JObj [(ascii ''content'', JArr [])])]), 2)"
    by (simp add: is_success_def utf8_response_def)
  with sessionless_handshake show ?thesis by simp
qed

lemma gpt_initialize_keeps_client:
  "snd (fst (gpt_initialize_session loads post c w)) = c"
  by (auto simp: gpt_initialize_session_def Let_def
      split: prod.splits http_outcome.splits option.splits sum.splits bool.splits)

lemma session_error_result:
  "tool_result_of repr (JObj [(ascii ''error'', JStr (ascii ''Session not initialized''))]) =
     Inr \<lparr>content = [TextContent (ascii ''Error: Session not initialized'')], isError = True\<rparr>"
  by (simp add: tool_result_of_def ascii_def)

text \<open>
  C10. In \<open>testMCP_gpt.py\<close> a new client has no session id and \<open>initialize_session\<close>
  returns the client unchanged, whatever the server answers. Without a session id
  \<open>_make_request\<close> returns \<open>{"error": "Session not initialized"}\<close> and leaves the
  remote side as it was. So every \<open>call_tool\<close> of a client that has gone through the
  handshake returns the single text \<open>Error: Session not initialized\<close> with
  \<open>isError\<close> set, for every tool, every arguments and every server, and posts nothing.
\<close>

theorem gpt_calls_never_sent:
  "session_id (new_client url token) = None
   \<and> snd (fst (gpt_initialize_session loads post c w)) = c
   \<and> (session_id c = None \<longrightarrow>
        gpt_make_request rjson post c method params rid w =
          (JObj [(ascii ''error'', JStr (ascii ''Session not initialized''))], w))
   \<and> (c1 = snd (fst (gpt_initialize_session loads post (new_client url token) w)) \<longrightarrow>
        gpt_call_tool rjson repr post' c1 name arguments rid w' =
          (Inr \<lparr>content = [TextContent (ascii ''Error: Session not initialized'')],
                isError = True\<rparr>, w'))"
proof (intro conjI impI)
  show "session_id (new_client url token) = None" by (simp add: new_client_def)
  show "snd (fst (gpt_initialize_session loads post c w)) = c"
    by (rule gpt_initialize_keeps_client)
  show "gpt_make_request rjson post c method params rid w =
          (JObj [(ascii ''error'', JStr (ascii ''Session not initialized''))], w)"
    if "session_id c = None"
    using that by (simp add: gpt_make_request_def)
  show "gpt_call_tool rjson repr post' c1 name arguments rid w' =
          (Inr \<lparr>content = [TextContent (ascii ''Error: Session not initialized'')],
                isError = True\<rparr>, w')"
    if "c1 = snd (fst (gpt_initialize_session loads post (new_client url token) w))"
  proof -
    have "session_id c1 = None"
      using that by (simp add: gpt_initialize_keeps_client new_client_def)
    then show ?thesis
      by (simp add: gpt_call_tool_def gpt_make_request_def session_error_result)
  qed
qed

text \<open>The handshake succeeds against the sessionless server, and the call is still refused.\<close>

theorem gpt_calls_never_sent_witness:
  "fst (gpt_initialize_session demo_loads sessionless_server
          (new_client (ascii ''http://h'') None) 0)
     = (True, new_client (ascii ''http://h'') None)
   \<and> gpt_call_tool demo_rjson (\<lambda>v. []) sessionless_server
        (new_client (ascii ''http://h'') None) (ascii ''list_metadata_objects'') (JObj [])
        (ascii ''r1'') 1
     = (Inr \<lparr>content = [TextContent (ascii ''Error: Session not initialized'')],
             isError = True\<rparr>, 1)"
proof -
  let ?c = "new_client (ascii ''http://h'') None"
  have i: "fst (gpt_initialize_session demo_loads sessionless_server ?c 0) = (True, ?c)"
    by (simp add: gpt_initialize_session_def sessionless_server_def initialize_request_def
      new_client_def utf8_response_def demo_loads_def table_decoder_def init_body_def
      call_body_def plain_body_def indented_body_def quoted_def ascii_def strip_def isspace_def
      startswith_def handshake_ok_def Let_def)
  then have c1: "?c = snd (fst (gpt_initialize_session demo_loads sessionless_server
          (new_client (ascii ''http://h'') None) 0))"
    by simp
  show ?thesis
    using i gpt_calls_never_sent
      [where ?c1.0 = ?c and url = "ascii ''http://h''" and token = None
         and loads = demo_loads and rjson = demo_rjson and post = sessionless_server and w = 0
         and repr = "\<lambda>v. []" and post' = sessionless_server
         and name = "ascii ''list_metadata_objects''" and arguments = "JObj []"
         and rid = "ascii ''r1''" and w' = 1]
      c1
    by simp
qed

section \<open>Tool results\<close>

lemma tool_result_of_error:
  "map_of d (ascii ''error'') = Some msg \<Longrightarrow>
     tool_result_of repr (JObj d) =
       Inr \<lparr>content = [TextContent (ascii ''Error: '' @ format_value repr msg)], isError = True\<rparr>"
  by (simp add: tool_result_of_def)

lemma tool_result_of_success_flag:
  "map_of d (ascii ''error'') = None \<Longrightarrow> tool_result_of repr (JObj d) = Inr t \<Longrightarrow>
     isError t = False"
  by (auto simp: tool_result_of_def split: sum.splits)

text \<open>
  C4. On the response \<open>{"result": {"content": [{"type": "text", "text": "boom"}],
  "isError": true}}\<close> the \<open>call_tool\<close> of \<open>testMCP_grok_plus_2.py\<close> returns the text item
  with \<open>isError = False\<close>: the payload's flag is not read. The \<open>call_tool\<close> of
  \<open>testMCP.py\<close> returns the same content with \<open>isError = True\<close>.
\<close>

theorem call_tool_ignores_isError:
  "tool_result_of repr
     (JObj [(ascii ''result'',
             JObj [(ascii ''content'',
                    JArr [JObj [(ascii ''type'', JStr (ascii ''text'')),
                                (ascii ''text'', JStr (ascii ''boom''))]]),
                   (ascii ''isError'', JBool True)])])
   = Inr \<lparr>content = [TextContent (ascii ''boom'')], isError = False\<rparr>
   \<and> testmcp_tool_result_of repr as_bool
     (JObj [(ascii ''result'',
             JObj [(ascii ''content'',
                    JArr [JObj [(ascii ''type'', JStr (ascii ''text'')),
                                (ascii ''text'', JStr (ascii ''boom''))]]),
                   (ascii ''isError'', JBool True)])])
   = Inr \<lparr>content = [TextContent (ascii ''boom'')], isError = True\<rparr>"
  by (simp add: tool_result_of_def testmcp_tool_result_of_def ascii_def)

section \<open>Rounds\<close>

lemmas eval_defs =
  scripted_tool_def demo_lib_def demo_draws_def start_state_def listing_script_def
  choice_def predefined_supported_types_def name_masks_def predefined_masks_def
  list_metadata_objects_args_def get_metadata_structure_args_def list_predefined_data_args_def
  tested_call_def tool_test_def decode_tool_result_def table_decoder_def log_test_def
  test_list_metadata_objects_def test_get_metadata_structure_def
  test_list_predefined_data_def test_get_predefined_data_def
  classify_def keyword_hit_def is_empty_result_def error_keywords_def lower_basic_def
  lower_cp_def startswith_def ascii_def Let_def record_verdict_def
  parse_objects_def name_of_line_def List.map_filter_def split_first_def split_last_def
  strip_def isspace_def

lemma tested_call_Inr:
  assumes "test (rs_world st) = (Inr result, w')"
    and "classify (str_lower L) result = Inr v"
  shows "tested_call L test n m args st =
     Inr (result, v,
          st\<lparr>rs_world := w',
             rs_log := rs_log st @ [(n, method_name m, args, result)],
             rs_stats := record_verdict m (rs_stats st) v\<rparr>)"
  using assms by (simp add: tested_call_def log_test_def Let_def)

lemma tested_call_log:
  assumes "tested_call L test n m args st = Inr (result, v, st')"
  shows "rs_log st' = rs_log st @ [(n, method_name m, args, result)]"
  using assms
  by (auto simp: tested_call_def log_test_def Let_def split: prod.splits sum.splits)

lemma tested_call_raises:
  assumes "test (rs_world st) = (Inl e, w')"
  shows "tested_call L test n m args st = Inl e"
  using assms by (simp add: tested_call_def)

lemma empty_text_payload:
  assumes "\<not> isError res"
    and "content res = [] \<or> (\<exists>rest. content res = TextContent [] # rest)"
    and "json_loads L [] = Inl failure"
  shows "decode_tool_result L res = Inr (JObj [(ascii ''result'', JStr [])])"
  using assms by (auto simp: decode_tool_result_def)

lemma empty_result_skipped:
  "lower [] = [] \<Longrightarrow> classify lower (JObj [(ascii ''result'', JStr [])]) = Inr Skipped"
  by (simp add: classify_def keyword_hit_def is_empty_result_def error_keywords_def
      ascii_def startswith_def)

text \<open>
  C6. In a round whose \<open>list_metadata_objects\<close> call returns a payload that is
  classified \<open>Error\<close> or \<open>Skipped\<close>, or from which no object name is parsed, the round
  ends right after that call: the log has the one new entry, the remote side is as the
  call left it, and only the counters of \<open>list_metadata_objects\<close> have changed. A tool
  result without error flag whose text is empty (or that has no content) is such a
  case: its payload is \<open>{"result": ""}\<close>, classified \<open>Skipped\<close>.
\<close>

theorem list_step_gates_round:
  assumes "choice (if coin r then predefined_supported_types else all_types) (type_pick r)
             = Inr meta_type"
    and "choice name_masks (mask_pick r) = Inr name_mask"
    and "args = list_metadata_objects_args meta_type name_mask (max_items r)"
    and "tool (rs_world st) (method_name List_metadata_objects) args = (Inr res, w1)"
    and "decode_tool_result L res = Inr list_result"
    and "classify (str_lower L) list_result = Inr v"
    and "v = Error \<or> v = Skipped \<or> parse_objects list_result = Inr []"
  shows "trial_round L tool r n st =
           Inr (st\<lparr>rs_world := w1,
                   rs_log := rs_log st @ [(n, method_name List_metadata_objects, args, list_result)],
                   rs_stats := record_verdict List_metadata_objects (rs_stats st) v\<rparr>)
       \<and> (\<not> isError res \<and> (content res = [] \<or> (\<exists>rest. content res = TextContent [] # rest))
            \<and> (\<exists>failure. json_loads L [] = Inl failure) \<and> str_lower L [] = []
          \<longrightarrow> list_result = JObj [(ascii ''result'', JStr [])] \<and> v = Skipped)"
proof
  have tt: "test_list_metadata_objects L tool meta_type name_mask (max_items r) (rs_world st)
              = (Inr list_result, w1)"
    using assms(4,5) unfolding assms(3)
    by (simp add: test_list_metadata_objects_def tool_test_def)
  note tc = tested_call_Inr
      [where test = "test_list_metadata_objects L tool meta_type name_mask (max_items r)"
         and m = List_metadata_objects and args = args and n = n, OF tt assms(6)]
  show "trial_round L tool r n st =
           Inr (st\<lparr>rs_world := w1,
                   rs_log := rs_log st @ [(n, method_name List_metadata_objects, args, list_result)],
                   rs_stats := record_verdict List_metadata_objects (rs_stats st) v\<rparr>)"
    unfolding assms(3) trial_round_def
    using assms(1,2,7) tc [unfolded assms(3)]
    by (cases v) simp_all
next
  show "\<not> isError res \<and> (content res = [] \<or> (\<exists>rest. content res = TextContent [] # rest))
            \<and> (\<exists>failure. json_loads L [] = Inl failure) \<and> str_lower L [] = []
          \<longrightarrow> list_result = JObj [(ascii ''result'', JStr [])] \<and> v = Skipped"
  proof (intro impI, elim conjE exE)
    fix failure
    assume a: "\<not> isError res"
      "content res = [] \<or> (\<exists>rest. content res = TextContent [] # rest)"
      "json_loads L [] = Inl failure" and lo: "str_lower L [] = []"
    have "decode_tool_result L res = Inr (JObj [(ascii ''result'', JStr [])])"
      using a by (rule empty_text_payload)
    with assms(5) have lr: "list_result = JObj [(ascii ''result'', JStr [])]" by simp
    with assms(6) lo have "v = Skipped" by (simp add: empty_result_skipped)
    with lr show "list_result = JObj [(ascii ''result'', JStr [])] \<and> v = Skipped" by simp
  qed
qed

text \<open>
  A server that answers every tool with the empty text: one call, one log entry, one
  skipped \<open>list_metadata_objects\<close>.
\<close>

theorem list_step_gates_round_witness:
  "trial_round demo_lib (scripted_tool []) demo_draws 1 start_state =
     Inr \<lparr>rs_stats = record_verdict List_metadata_objects init_stats Skipped,
          rs_log = [(1, ascii ''list_metadata_objects'',
                     list_metadata_objects_args (ascii ''Catalogs'') [] 10,
                     JObj [(ascii ''result'', JStr [])])],
          rs_world = [ascii ''list_metadata_objects'']\<rparr>"
proof -
  let ?args = "list_metadata_objects_args (ascii ''Catalogs'') [] 10"
  let ?res = "\<lparr>content = [TextContent []], isError = False\<rparr>"
  let ?payload = "JObj [(ascii ''result'', JStr [])]"
  have h1: "choice (if coin demo_draws then predefined_supported_types else all_types)
              (type_pick demo_draws) = Inr (ascii ''Catalogs'')"
    by (simp add: eval_defs)
  have h2: "choice name_masks (mask_pick demo_draws) = Inr []"
    by (simp add: eval_defs)
  have h3: "?args = list_metadata_objects_args (ascii ''Catalogs'') [] (max_items demo_draws)"
    by (simp add: demo_draws_def)
  have h4: "scripted_tool [] (rs_world start_state) (method_name List_metadata_objects) ?args
              = (Inr ?res, [ascii ''list_metadata_objects''])"
    by (simp add: scripted_tool_def start_state_def)
  have h5: "decode_tool_result demo_lib ?res = Inr ?payload"
    by (simp add: decode_tool_result_def demo_lib_def table_decoder_def)
  have h6: "classify (str_lower demo_lib) ?payload = Inr Skipped"
    by (simp add: demo_lib_def empty_result_skipped lower_basic_def)
  have h7: "Skipped = Error \<or> Skipped = Skipped \<or> parse_objects ?payload = Inr []"
    by simp
  show ?thesis
    using list_step_gates_round
      [where r = demo_draws and meta_type = "ascii ''Catalogs''" and name_mask = "[]"
         and args = ?args and tool = "scripted_tool []" and st = start_state and res = ?res
         and ?w1.0 = "[ascii ''list_metadata_objects'']" and L = demo_lib
         and list_result = ?payload and v = Skipped and n = 1,
       OF h1 h2 h3 h4 h5 h6 h7]
    by (simp add: start_state_def)
qed

lemma predefined_details_log:
  "predefined_details L tool n meta_type object_name items st = Inr st' \<Longrightarrow>
     \<exists>more. rs_log st' = rs_log st @ more"
proof (induction items arbitrary: st)
  case Nil
  then show ?case by simp
next
  case (Cons item items)
  show ?case
  proof (cases "truthy item")
    case False
    with Cons show ?thesis by simp
  next
    case True
    with Cons.prems obtain result v st1 where
      tc: "tested_call L (test_get_predefined_data L tool meta_type object_name item) n
             Get_predefined_data
             (get_predefined_data_args meta_type object_name item) st = Inr (result, v, st1)"
      and rest: "predefined_details L tool n meta_type object_name items st1 = Inr st'"
      by (auto split: sum.splits)
    from Cons.IH [OF rest] obtain more where "rs_log st' = rs_log st1 @ more" by blast
    with tested_call_log [OF tc] show ?thesis by simp
  qed
qed

lemma predefined_step_log:
  assumes "choice predefined_masks (pmask_pick r) = Inr predefined_mask"
    and "predefined_step L tool r n meta_type object_name st = Inr st'"
  shows "\<exists>payload more.
           rs_log st' = rs_log st @
             (n, method_name List_predefined_data,
              list_predefined_data_args meta_type object_name predefined_mask (max_items r),
              payload) # more"
proof -
  let ?args = "list_predefined_data_args meta_type object_name predefined_mask (max_items r)"
  obtain payload v st1 where
    tc: "tested_call L
           (test_list_predefined_data L tool meta_type object_name predefined_mask (max_items r))
           n List_predefined_data ?args st = Inr (payload, v, st1)"
    using assms by (auto simp: predefined_step_def split: sum.splits)
  have "\<exists>more. rs_log st' = rs_log st1 @ more"
  proof (cases "v = Success")
    case False
    with assms tc have "st' = st1" by (simp add: predefined_step_def)
    then show ?thesis by simp
  next
    case True
    show ?thesis
    proof (cases "parse_predefined payload")
      case (Inl e)
      with assms tc True show ?thesis by (simp add: predefined_step_def)
    next
      case (Inr predefined_objects)
      show ?thesis
      proof (cases "predefined_objects = []")
        case True
        with assms tc \<open>v = Success\<close> Inr have "st' = st1" by (simp add: predefined_step_def)
        then show ?thesis by simp
      next
        case False
        with assms tc \<open>v = Success\<close> Inr
        have "predefined_details L tool n meta_type object_name
                (sample_pick r predefined_objects
                   (min (length predefined_objects) (sample_size r))) st1 = Inr st'"
          by (simp add: predefined_step_def Let_def)
        then show ?thesis by (rule predefined_details_log)
      qed
    qed
  qed
  with tested_call_log [OF tc] show ?thesis by auto
qed

lemma tested_call_stats:
  assumes "tested_call L test n m args st = Inr (result, v, st')"
  shows "rs_stats st' = record_verdict m (rs_stats st) v"
  using assms
  by (auto simp: tested_call_def log_test_def Let_def split: prod.splits sum.splits)

lemma record_verdict_other: "m' \<noteq> m \<Longrightarrow> record_verdict m s v m' = s m'"
  by (simp add: record_verdict_def)

lemma record_verdict_counters:
  "m_total (record_verdict m s v m) = m_total (s m) + 1"
  "m_success (record_verdict m s v m) = m_success (s m) + (if v = Success then 1 else 0)"
  "m_errors (record_verdict m s v m) = m_errors (s m) + (if v = Error then 1 else 0)"
  "m_skipped (record_verdict m s v m) = m_skipped (s m) + (if v = Skipped then 1 else 0)"
  by (cases v; simp add: record_verdict_def)+

lemma predefined_details_stats:
  "predefined_details L tool n meta_type object_name items st = Inr st' \<Longrightarrow>
     m \<noteq> Get_predefined_data \<Longrightarrow> rs_stats st' m = rs_stats st m"
proof (induction items arbitrary: st)
  case Nil
  then show ?case by simp
next
  case (Cons item items)
  show ?case
  proof (cases "truthy item")
    case False
    with Cons show ?thesis by simp
  next
    case True
    with Cons.prems obtain result v st1 where
      tc: "tested_call L (test_get_predefined_data L tool meta_type object_name item) n
             Get_predefined_data
             (get_predefined_data_args meta_type object_name item) st = Inr (result, v, st1)"
      and rest: "predefined_details L tool n meta_type object_name items st1 = Inr st'"
      by (auto split: sum.splits)
    have "rs_stats st' m = rs_stats st1 m" by (rule Cons.IH [OF rest Cons.prems(2)])
    also have "\<dots> = rs_stats st m"
      unfolding tested_call_stats [OF tc] using Cons.prems(2) by (simp add: record_verdict_other)
    finally show ?thesis .
  qed
qed

lemma predefined_step_stats:
  assumes "predefined_step L tool r n meta_type object_name st = Inr st'"
  shows "rs_stats st' Get_metadata_structure = rs_stats st Get_metadata_structure"
    and "m_total (rs_stats st' List_predefined_data)
           = m_total (rs_stats st List_predefined_data) + 1"
proof -
  from assms obtain predefined_mask where
    pm: "choice predefined_masks (pmask_pick r) = Inr predefined_mask"
    by (auto simp: predefined_step_def split: sum.splits)
  from assms pm obtain payload v st1 where
    tc: "tested_call L
           (test_list_predefined_data L tool meta_type object_name predefined_mask (max_items r))
           n List_predefined_data
           (list_predefined_data_args meta_type object_name predefined_mask (max_items r)) st
         = Inr (payload, v, st1)"
    by (auto simp: predefined_step_def split: sum.splits)
  have rest: "st' = st1 \<or>
         (\<exists>items. predefined_details L tool n meta_type object_name items st1 = Inr st')"
    using assms pm tc
    by (auto simp: predefined_step_def Let_def split: sum.splits if_splits)
  have same: "rs_stats st' m = rs_stats st1 m" if "m \<noteq> Get_predefined_data" for m
    using rest that by (auto dest: predefined_details_stats)
  show "rs_stats st' Get_metadata_structure = rs_stats st Get_metadata_structure"
    using same [of Get_metadata_structure]
    by (simp add: tested_call_stats [OF tc] record_verdict_other)
  show "m_total (rs_stats st' List_predefined_data)
          = m_total (rs_stats st List_predefined_data) + 1"
    using same [of List_predefined_data]
    by (simp add: tested_call_stats [OF tc] record_verdict_counters)
qed

text \<open>
  C7. Take a round whose \<open>list_metadata_objects\<close> call was classified \<open>Success\<close>, whose
  chosen object has a non-empty name and whose meta type supports predefined data. If
  the \<open>get_metadata_structure\<close> call returns and its payload is classified, with any
  verdict \<open>v\<close>, then the verdict is recorded, that is, the \<open>total\<close> counter of
  \<open>get_metadata_structure\<close> is one more than before the round and so is the counter of
  the verdict \<open>v\<close>, the other two being as they were; and the round goes on with the
  predefined-data step from that state \<open>st2\<close>, with the remote side as the structure
  call left it. The \<open>list_predefined_data\<close> call is made there: an exception of it is
  the round's exception, and a round that completes has logged the three calls in
  this order, has counted the \<open>list_predefined_data\<close> call, and still has the
  counters of \<open>get_metadata_structure\<close> as they were recorded.
\<close>

theorem structure_verdict_does_not_abort:
  assumes "choice (if coin r then predefined_supported_types else all_types) (type_pick r)
             = Inr meta_type"
    and "choice name_masks (mask_pick r) = Inr name_mask"
    and "tool (rs_world st) (method_name List_metadata_objects)
           (list_metadata_objects_args meta_type name_mask (max_items r)) = (Inr res1, w1)"
    and "decode_tool_result L res1 = Inr list_result"
    and "classify (str_lower L) list_result = Inr Success"
    and "parse_objects list_result = Inr objects"
    and "choice objects (object_pick r) = Inr object_name"
    and "truthy object_name"
    and "meta_type \<in> set predefined_supported_types"
    and "tool w1 (method_name Get_metadata_structure)
           (get_metadata_structure_args meta_type object_name) = (Inr res2, w2)"
    and "decode_tool_result L res2 = Inr structure_result"
    and "classify (str_lower L) structure_result = Inr v"
    and "choice predefined_masks (pmask_pick r) = Inr predefined_mask"
    and "st2 = st\<lparr>rs_world := w2,
                    rs_log := rs_log st @
                      [(n, method_name List_metadata_objects,
                        list_metadata_objects_args meta_type name_mask (max_items r),
                        list_result),
                       (n, method_name Get_metadata_structure,
                        get_metadata_structure_args meta_type object_name, structure_result)],
                    rs_stats := record_verdict Get_metadata_structure
                                  (record_verdict List_metadata_objects (rs_stats st) Success)
                                  v\<rparr>"
  shows "trial_round L tool r n st = predefined_step L tool r n meta_type object_name st2
    \<and> m_total (rs_stats st2 Get_metadata_structure)
        = m_total (rs_stats st Get_metadata_structure) + 1
    \<and> m_success (rs_stats st2 Get_metadata_structure)
        = m_success (rs_stats st Get_metadata_structure) + (if v = Success then 1 else 0)
    \<and> m_errors (rs_stats st2 Get_metadata_structure)
        = m_errors (rs_stats st Get_metadata_structure) + (if v = Error then 1 else 0)
    \<and> m_skipped (rs_stats st2 Get_metadata_structure)
        = m_skipped (rs_stats st Get_metadata_structure) + (if v = Skipped then 1 else 0)
    \<and> (\<forall>e w3. tool w2 (method_name List_predefined_data)
                 (list_predefined_data_args meta_type object_name predefined_mask (max_items r))
               = (Inl e, w3) \<longrightarrow>
          trial_round L tool r n st = Inl e)
    \<and> (\<forall>st'. trial_round L tool r n st = Inr st' \<longrightarrow>
          (\<exists>payload more.
             rs_log st' = rs_log st @
               [(n, method_name List_metadata_objects,
                 list_metadata_objects_args meta_type name_mask (max_items r), list_result),
                (n, method_name Get_metadata_structure,
                 get_metadata_structure_args meta_type object_name, structure_result),
                (n, method_name List_predefined_data,
                 list_predefined_data_args meta_type object_name predefined_mask (max_items r),
                 payload)] @ more)
          \<and> m_total (rs_stats st' Get_metadata_structure)
              = m_total (rs_stats st Get_metadata_structure) + 1
          \<and> m_success (rs_stats st' Get_metadata_structure)
              = m_success (rs_stats st Get_metadata_structure) + (if v = Success then 1 else 0)
          \<and> m_errors (rs_stats st' Get_metadata_structure)
              = m_errors (rs_stats st Get_metadata_structure) + (if v = Error then 1 else 0)
          \<and> m_skipped (rs_stats st' Get_metadata_structure)
              = m_skipped (rs_stats st Get_metadata_structure) + (if v = Skipped then 1 else 0)
          \<and> m_total (rs_stats st' List_predefined_data)
              = m_total (rs_stats st List_predefined_data) + 1)"
proof -
  let ?e1 = "(n, method_name List_metadata_objects,
              list_metadata_objects_args meta_type name_mask (max_items r), list_result)"
  let ?e2 = "(n, method_name Get_metadata_structure,
              get_metadata_structure_args meta_type object_name, structure_result)"
  let ?st1 = "st\<lparr>rs_world := w1, rs_log := rs_log st @ [?e1],
                  rs_stats := record_verdict List_metadata_objects (rs_stats st) Success\<rparr>"
  have ne: "objects \<noteq> []"
    using assms(7) by (auto simp: choice_def split: if_splits)
  have t1: "test_list_metadata_objects L tool meta_type name_mask (max_items r) (rs_world st)
              = (Inr list_result, w1)"
    using assms(3,4) by (simp add: test_list_metadata_objects_def tool_test_def)
  have c1: "tested_call L (test_list_metadata_objects L tool meta_type name_mask (max_items r)) n
              List_metadata_objects
              (list_metadata_objects_args meta_type name_mask (max_items r)) st
            = Inr (list_result, Success, ?st1)"
    by (rule tested_call_Inr
          [where test = "test_list_metadata_objects L tool meta_type name_mask (max_items r)"
             and st = st, OF t1 assms(5)])
  have t2: "test_get_metadata_structure L tool meta_type object_name (rs_world ?st1)
              = (Inr structure_result, w2)"
    using assms(10,11) by (simp add: test_get_metadata_structure_def tool_test_def)
  have c2: "tested_call L (test_get_metadata_structure L tool meta_type object_name) n
              Get_metadata_structure (get_metadata_structure_args meta_type object_name) ?st1
            = Inr (structure_result, v, st2)"
    unfolding assms(14)
      tested_call_Inr
        [where test = "test_get_metadata_structure L tool meta_type object_name"
           and st = ?st1, OF t2 assms(12)]
    by simp
  have round: "trial_round L tool r n st = predefined_step L tool r n meta_type object_name st2"
    using assms(1,2,6-9) ne c1 c2 by (simp add: trial_round_def structure_step_def)
  have s2: "rs_stats st2 Get_metadata_structure =
              record_verdict Get_metadata_structure (rs_stats st) v Get_metadata_structure"
    unfolding assms(14) by (simp add: record_verdict_def)
  have p2: "rs_stats st2 List_predefined_data = rs_stats st List_predefined_data"
    unfolding assms(14) by (simp add: record_verdict_def)
  have counters:
    "m_total (rs_stats st2 Get_metadata_structure)
       = m_total (rs_stats st Get_metadata_structure) + 1"
    "m_success (rs_stats st2 Get_metadata_structure)
       = m_success (rs_stats st Get_metadata_structure) + (if v = Success then 1 else 0)"
    "m_errors (rs_stats st2 Get_metadata_structure)
       = m_errors (rs_stats st Get_metadata_structure) + (if v = Error then 1 else 0)"
    "m_skipped (rs_stats st2 Get_metadata_structure)
       = m_skipped (rs_stats st Get_metadata_structure) + (if v = Skipped then 1 else 0)"
    unfolding s2 by (rule record_verdict_counters)+
  have w2: "rs_world st2 = w2" and l2: "rs_log st2 = rs_log st @ [?e1, ?e2]"
    unfolding assms(14) by simp_all
  have raises: "trial_round L tool r n st = Inl e"
    if "tool w2 (method_name List_predefined_data)
          (list_predefined_data_args meta_type object_name predefined_mask (max_items r))
        = (Inl e, w3)" for e w3
  proof -
    from that w2 have "test_list_predefined_data L tool meta_type object_name predefined_mask
                      (max_items r) (rs_world st2) = (Inl e, w3)"
      by (simp add: test_list_predefined_data_def tool_test_def)
    from tested_call_raises
      [where test = "test_list_predefined_data L tool meta_type object_name predefined_mask
                       (max_items r)"
         and st = st2 and e = e and w' = w3 and L = L and n = n, OF this]
      assms(13)
    show ?thesis by (simp add: round predefined_step_def)
  qed
  have completes:
    "(\<exists>payload more.
         rs_log st' = rs_log st @
           [?e1, ?e2,
            (n, method_name List_predefined_data,
             list_predefined_data_args meta_type object_name predefined_mask (max_items r),
             payload)] @ more)
     \<and> m_total (rs_stats st' Get_metadata_structure)
         = m_total (rs_stats st Get_metadata_structure) + 1
     \<and> m_success (rs_stats st' Get_metadata_structure)
         = m_success (rs_stats st Get_metadata_structure) + (if v = Success then 1 else 0)
     \<and> m_errors (rs_stats st' Get_metadata_structure)
         = m_errors (rs_stats st Get_metadata_structure) + (if v = Error then 1 else 0)
     \<and> m_skipped (rs_stats st' Get_metadata_structure)
         = m_skipped (rs_stats st Get_metadata_structure) + (if v = Skipped then 1 else 0)
     \<and> m_total (rs_stats st' List_predefined_data)
         = m_total (rs_stats st List_predefined_data) + 1"
    if "trial_round L tool r n st = Inr st'" for st'
  proof -
    from that round
    have ps: "predefined_step L tool r n meta_type object_name st2 = Inr st'" by simp
    from predefined_step_log [OF assms(13) ps] obtain payload more where
      "rs_log st' = rs_log st2 @
         (n, method_name List_predefined_data,
          list_predefined_data_args meta_type object_name predefined_mask (max_items r),
          payload) # more"
      by blast
    then have lg: "\<exists>payload more.
         rs_log st' = rs_log st @
           [?e1, ?e2,
            (n, method_name List_predefined_data,
             list_predefined_data_args meta_type object_name predefined_mask (max_items r),
             payload)] @ more"
      unfolding l2 by simp
    show ?thesis
      using lg counters predefined_step_stats [OF ps] p2 by simp
  qed
  show ?thesis
    using round counters raises completes by blast
qed

text \<open>
  A listing with one object, a structure call that reports an error, and the
  \<open>list_predefined_data\<close> call that follows it: each of the three tools has been
  counted once, \<open>get_metadata_structure\<close> as an error.
\<close>

theorem structure_verdict_does_not_abort_witness:
  "classify (str_lower demo_lib) (JObj [(ascii ''result'', JStr (ascii ''Error: not found''))])
     = Inr Error
   \<and> trial_round demo_lib (scripted_tool listing_script) demo_draws 1 start_state =
     Inr \<lparr>rs_stats = init_stats
            (List_metadata_objects :=
               \<lparr>m_total = 1, m_success = 1, m_errors = 0, m_skipped = 0\<rparr>,
             Get_metadata_structure :=
               \<lparr>m_total = 1, m_success = 0, m_errors = 1, m_skipped = 0\<rparr>,
             List_predefined_data :=
               \<lparr>m_total = 1, m_success = 0, m_errors = 0, m_skipped = 1\<rparr>),
          rs_log =
            [(1, ascii ''list_metadata_objects'',
              list_metadata_objects_args (ascii ''Catalogs'') [] 10,
              JObj [(ascii ''result'', JStr (ascii ''Catalog.Goods (Goods)''))]),
             (1, ascii ''get_metadata_structure'',
              get_metadata_structure_args (ascii ''Catalogs'') (JStr (ascii ''Goods'')),
              JObj [(ascii ''result'', JStr (ascii ''Error: not found''))]),
             (1, ascii ''list_predefined_data'',
              list_predefined_data_args (ascii ''Catalogs'') (JStr (ascii ''Goods'')) [] 10,
              JObj [(ascii ''result'', JStr [])])],
          rs_world = [ascii ''list_metadata_objects'', ascii ''get_metadata_structure'',
                      ascii ''list_predefined_data'']\<rparr>"
proof -
  let ?tool = "scripted_tool listing_script"
  let ?listing = "JObj [(ascii ''result'', JStr (ascii ''Catalog.Goods (Goods)''))]"
  let ?structure = "JObj [(ascii ''result'', JStr (ascii ''Error: not found''))]"
  let ?res1 = "\<lparr>content = [TextContent (ascii ''Catalog.Goods (Goods)'')], isError = False\<rparr>"
  let ?res2 = "\<lparr>content = [TextContent (ascii ''Error: not found'')], isError = False\<rparr>"
  let ?st2 = "start_state\<lparr>rs_world := [ascii ''list_metadata_objects'',
                                          ascii ''get_metadata_structure''],
               rs_log := rs_log start_state @
                 [(1, method_name List_metadata_objects,
                   list_metadata_objects_args (ascii ''Catalogs'') [] (max_items demo_draws),
                   ?listing),
                  (1, method_name Get_metadata_structure,
                   get_metadata_structure_args (ascii ''Catalogs'') (JStr (ascii ''Goods'')),
                   ?structure)],
               rs_stats := record_verdict Get_metadata_structure
                             (record_verdict List_metadata_objects (rs_stats start_state) Success)
                             Error\<rparr>"
  have h1: "choice (if coin demo_draws then predefined_supported_types else all_types)
              (type_pick demo_draws) = Inr (ascii ''Catalogs'')"
    by (simp add: eval_defs)
  have h2: "choice name_masks (mask_pick demo_draws) = Inr []"
    by (simp add: eval_defs)
  have h3: "?tool (rs_world start_state) (method_name List_metadata_objects)
              (list_metadata_objects_args (ascii ''Catalogs'') [] (max_items demo_draws))
            = (Inr ?res1, [ascii ''list_metadata_objects''])"
    by (simp add: eval_defs)
  have h4: "decode_tool_result demo_lib ?res1 = Inr ?listing"
    by (simp add: eval_defs)
  have h5: "classify (str_lower demo_lib) ?listing = Inr Success"
    by (simp add: eval_defs)
  have h6: "parse_objects ?listing = Inr [JStr (ascii ''Goods'')]"
    by (simp add: eval_defs)
  have h7: "choice [JStr (ascii ''Goods'')] (object_pick demo_draws) = Inr (JStr (ascii ''Goods''))"
    by (simp add: choice_def)
  have h8: "truthy (JStr (ascii ''Goods''))"
    by (simp add: ascii_def)
  have h9: "ascii ''Catalogs'' \<in> set predefined_supported_types"
    by (simp add: predefined_supported_types_def)
  have h10: "?tool [ascii ''list_metadata_objects''] (method_name Get_metadata_structure)
               (get_metadata_structure_args (ascii ''Catalogs'') (JStr (ascii ''Goods'')))
             = (Inr ?res2, [ascii ''list_metadata_objects'', ascii ''get_metadata_structure''])"
    by (simp add: eval_defs)
  have h11: "decode_tool_result demo_lib ?res2 = Inr ?structure"
    by (simp add: eval_defs)
  have h12: "classify (str_lower demo_lib) ?structure = Inr Error"
    by (simp add: eval_defs)
  have h13: "choice predefined_masks (pmask_pick demo_draws) = Inr []"
    by (simp add: eval_defs)
  have step: "predefined_step demo_lib ?tool demo_draws 1 (ascii ''Catalogs'')
                (JStr (ascii ''Goods'')) ?st2 =
     Inr \<lparr>rs_stats = init_stats
            (List_metadata_objects :=
               \<lparr>m_total = 1, m_success = 1, m_errors = 0, m_skipped = 0\<rparr>,
             Get_metadata_structure :=
               \<lparr>m_total = 1, m_success = 0, m_errors = 1, m_skipped = 0\<rparr>,
             List_predefined_data :=
               \<lparr>m_total = 1, m_success = 0, m_errors = 0, m_skipped = 1\<rparr>),
          rs_log =
            [(1, ascii ''list_metadata_objects'',
              list_metadata_objects_args (ascii ''Catalogs'') [] 10, ?listing),
             (1, ascii ''get_metadata_structure'',
              get_metadata_structure_args (ascii ''Catalogs'') (JStr (ascii ''Goods'')),
              ?structure),
             (1, ascii ''list_predefined_data'',
              list_predefined_data_args (ascii ''Catalogs'') (JStr (ascii ''Goods'')) [] 10,
              JObj [(ascii ''result'', JStr [])])],
          rs_world = [ascii ''list_metadata_objects'', ascii ''get_metadata_structure'',
                      ascii ''list_predefined_data'']\<rparr>"
    by (simp add: predefined_step_def eval_defs init_stats_def)
  note T = structure_verdict_does_not_abort
      [where r = demo_draws and meta_type = "ascii ''Catalogs''" and name_mask = "[]"
         and L = demo_lib and tool = ?tool and n = 1 and st = start_state
         and ?res1.0 = ?res1 and ?w1.0 = "[ascii ''list_metadata_objects'']"
         and list_result = ?listing and objects = "[JStr (ascii ''Goods'')]"
         and object_name = "JStr (ascii ''Goods'')" and ?res2.0 = ?res2
         and ?w2.0 = "[ascii ''list_metadata_objects'', ascii ''get_metadata_structure'']"
         and structure_result = ?structure
         and v = Error and ?st2.0 = ?st2 and predefined_mask = "[]",
       OF h1 h2 h3 h4 h5 h6 h7 h8 h9 h10 h11 h12 h13 refl]
  from T have "trial_round demo_lib ?tool demo_draws 1 start_state =
      predefined_step demo_lib ?tool demo_draws 1 (ascii ''Catalogs'') (JStr (ascii ''Goods'')) ?st2"
    by (elim conjE)
  with step h12 show ?thesis by simp
qed

end
